theory Spec2Isabelle
  imports Main "HOL-Library.Word"
begin

unbundle bit_operations_syntax

section \<open>Data model\<close>

text \<open>
  Python's \<open>bytes\<close> are lists of 8-bit words, addresses are \<open>bytes\<close> values (20 bytes long
  in well-formed inputs) and Python's unbounded integers are \<open>int\<close>.
\<close>

type_synonym byte = "8 word"
type_synonym bytes = "byte list"
type_synonym address = bytes

text \<open>
  The exceptions the modelled code raises. \<open>is_VMError\<close> tells the subclasses of
  \<open>eth.exceptions.VMError\<close> (what \<open>except VMError\<close> catches) from the others.
  \<open>Raised\<close> stands for any other exception, named by a number.
\<close>

datatype exn =
    AttributeError
  | ValidationError
  | StackDepthLimit
  | InsufficientFunds
  | OutOfGas
  | StackUnderflow
  | InvalidJumpDestination
  | InvalidInstruction
  | ContractCreationCollision
  | ValueError
  | Raised nat

fun is_VMError :: "exn \<Rightarrow> bool" where
  "is_VMError StackDepthLimit = True"
| "is_VMError InsufficientFunds = True"
| "is_VMError OutOfGas = True"
| "is_VMError StackUnderflow = True"
| "is_VMError InvalidJumpDestination = True"
| "is_VMError InvalidInstruction = True"
| "is_VMError ContractCreationCollision = True"
| "is_VMError _ = False"

text \<open>
  A signed transaction, by the attributes the executors read. For a legacy transaction
  \<open>max_fee_per_gas\<close> and \<open>max_priority_fee_per_gas\<close> both read \<open>gas_price\<close>.
  \<open>access_list\<close> is the sequence of \<open>(address, slots)\<close> entries.
\<close>

record transaction =
  nonce :: int
  gas_price :: int
  gas :: int
  to :: address
  "value" :: int
  data :: bytes
  sender :: address
  max_fee_per_gas :: int
  max_priority_fee_per_gas :: int
  intrinsic_gas :: int
  access_list :: "(address \<times> int list) list"

text \<open>
  The execution context built from a block header by \<open>VM.create_execution_context\<close>
  (\<^verbatim>\<open>eth/vm/base.py\<close>): the base fee is there only when the header has one.
\<close>

record execution_context =
  coinbase :: address
  timestamp :: int
  block_number :: int
  difficulty :: int
  mix_hash :: bytes
  gas_limit :: int
  prev_hashes :: "bytes list"
  chain_id :: int
  base_fee_per_gas :: "int option"

text \<open>
  Modelled from the spec: the \<open>base_fee_per_gas\<close> property of the class
  \<open>ExecutionContext\<close> (\<^verbatim>\<open>eth/vm/execution_context.py\<close>, not among the sources). The
  spec's data model gives the execution context an optional base fee
  (\<open>base_fee_per_gas?\<close>); reading it when it is absent raises \<open>AttributeError\<close>.
\<close>

definition get_base_fee_per_gas :: "execution_context \<Rightarrow> exn + int" where
  "get_base_fee_per_gas ctx =
     (case execution_context.base_fee_per_gas ctx of None \<Rightarrow> Inl AttributeError | Some b \<Rightarrow> Inr b)"

text \<open>The transaction context: what the \<open>GASPRICE\<close> and \<open>ORIGIN\<close> opcodes read.\<close>

record transaction_context =
  gas_price :: int
  origin :: address

section \<open>London fee market (\<^verbatim>\<open>eth/vm/forks/london/state.py\<close>)\<close>

text \<open>
  \<open>LondonState.get_tip\<close>, \<open>LondonState.get_gas_price\<close> and
  \<open>LondonState.get_transaction_context\<close> read the state's execution context only, so
  the model takes the execution context for \<open>self\<close>.
\<close>

definition LondonState_get_tip :: "execution_context \<Rightarrow> transaction \<Rightarrow> exn + int" where
  "LondonState_get_tip ctx transaction =
     (case get_base_fee_per_gas ctx of
        Inl e \<Rightarrow> Inl e
      | Inr base_fee \<Rightarrow>
          Inr (min (max_fee_per_gas transaction - base_fee)
                   (max_priority_fee_per_gas transaction)))"

definition LondonState_get_gas_price :: "execution_context \<Rightarrow> transaction \<Rightarrow> exn + int" where
  "LondonState_get_gas_price ctx transaction =
     (case get_base_fee_per_gas ctx of
        Inl e \<Rightarrow> Inl e
      | Inr base_fee \<Rightarrow>
          Inr (min (max_fee_per_gas transaction)
                   (max_priority_fee_per_gas transaction + base_fee)))"

definition LondonState_get_transaction_context ::
  "execution_context \<Rightarrow> transaction \<Rightarrow> exn + transaction_context" where
  "LondonState_get_transaction_context ctx transaction =
     (case get_base_fee_per_gas ctx of
        Inl e \<Rightarrow> Inl e
      | Inr base_fee \<Rightarrow>
          (let effective_gas_price =
                 min (max_priority_fee_per_gas transaction + base_fee)
                     (max_fee_per_gas transaction)
           in Inr \<lparr>transaction_context.gas_price = effective_gas_price, origin = transaction.sender transaction\<rparr>))"

section \<open>World state and snapshots\<close>

text \<open>
  An account and the part of the state that snapshots cover: the accounts, the set of
  touched accounts and the warm address and storage-slot sets of the access set.
\<close>

record account =
  nonce :: int
  balance :: int
  code :: bytes
  storage :: "int \<Rightarrow> int"

record account_db =
  accounts :: "address \<rightharpoonup> account"
  touched :: "address set"
  warm_addresses :: "address set"
  warm_slots :: "(address \<times> int) set"

text \<open>
  The state: the execution context, the current account database and the stack of open
  checkpoints (oldest first), each holding the account database as it was when the
  snapshot was taken.
\<close>

record state =
  execution_context :: execution_context
  account_db :: account_db
  checkpoints :: "account_db list"

text \<open>
  Modelled from the spec: the state facade of \<^verbatim>\<open>eth/vm/state.py\<close> (class \<open>BaseState\<close>)
  and the account database beneath it, which are not among the sources. The spec's words:
  \<open>snapshot()\<close>, \<open>commit(snapshot)\<close> and \<open>revert(snapshot)\<close> form a stack discipline;
  snapshots nest; revert drops all changes since that snapshot; commit merges them into the
  parent scope; a snapshot id is a token valid only until its matching commit or revert,
  and using a stale token is a programmer error (here: \<open>ValidationError\<close> is raised and
  nothing changes). The token of a snapshot is its position in the stack of open
  checkpoints. An account is created lazily on first write and reads as nonce 0,
  balance 0, empty code until then.
\<close>

definition snapshot :: "state \<Rightarrow> nat \<times> state" where
  "snapshot s = (length (checkpoints s), s\<lparr>checkpoints := checkpoints s @ [account_db s]\<rparr>)"

definition revert :: "state \<Rightarrow> nat \<Rightarrow> (exn + unit) \<times> state" where
  "revert s snap =
     (if snap < length (checkpoints s)
      then (Inr (), s\<lparr>account_db := checkpoints s ! snap, checkpoints := take snap (checkpoints s)\<rparr>)
      else (Inl ValidationError, s))"

definition commit :: "state \<Rightarrow> nat \<Rightarrow> (exn + unit) \<times> state" where
  "commit s snap =
     (if snap < length (checkpoints s)
      then (Inr (), s\<lparr>checkpoints := take snap (checkpoints s)\<rparr>)
      else (Inl ValidationError, s))"

definition empty_account :: account where
  "empty_account = \<lparr>nonce = 0, balance = 0, code = [], storage = (\<lambda>_. 0)\<rparr>"

definition get_account :: "state \<Rightarrow> address \<Rightarrow> account" where
  "get_account s a = (case accounts (account_db s) a of None \<Rightarrow> empty_account | Some acc \<Rightarrow> acc)"

definition set_account :: "state \<Rightarrow> address \<Rightarrow> account \<Rightarrow> state" where
  "set_account s a acc = s\<lparr>account_db := (account_db s)\<lparr>accounts := (accounts (account_db s))(a \<mapsto> acc)\<rparr>\<rparr>"

definition get_balance :: "state \<Rightarrow> address \<Rightarrow> int" where
  "get_balance s a = balance (get_account s a)"

definition delta_balance :: "state \<Rightarrow> address \<Rightarrow> int \<Rightarrow> state" where
  "delta_balance s a delta = set_account s a ((get_account s a)\<lparr>balance := get_balance s a + delta\<rparr>)"

definition get_nonce :: "state \<Rightarrow> address \<Rightarrow> int" where
  "get_nonce s a = account.nonce (get_account s a)"

definition increment_nonce :: "state \<Rightarrow> address \<Rightarrow> state" where
  "increment_nonce s a = set_account s a ((get_account s a)\<lparr>account.nonce := get_nonce s a + 1\<rparr>)"

definition get_code :: "state \<Rightarrow> address \<Rightarrow> bytes" where
  "get_code s a = account.code (get_account s a)"

definition set_code :: "state \<Rightarrow> address \<Rightarrow> bytes \<Rightarrow> state" where
  "set_code s a c = set_account s a ((get_account s a)\<lparr>account.code := c\<rparr>)"



definition touch_account :: "state \<Rightarrow> address \<Rightarrow> state" where
  "touch_account s a = s\<lparr>account_db := (account_db s)\<lparr>touched := insert a (touched (account_db s))\<rparr>\<rparr>"

definition mark_address_warm :: "state \<Rightarrow> address \<Rightarrow> state" where
  "mark_address_warm s a =
     s\<lparr>account_db := (account_db s)\<lparr>warm_addresses := insert a (warm_addresses (account_db s))\<rparr>\<rparr>"

definition mark_storage_warm :: "state \<Rightarrow> address \<Rightarrow> int \<Rightarrow> state" where
  "mark_storage_warm s a slot =
     s\<lparr>account_db := (account_db s)\<lparr>warm_slots := insert (a, slot) (warm_slots (account_db s))\<rparr>\<rparr>"

section \<open>Messages and computations\<close>

text \<open>
  A message, with the fields of the spec's data model (the class \<open>Message\<close> of
  \<^verbatim>\<open>eth/vm/message.py\<close> is not among the sources); \<open>storage_address\<close> and \<open>is_create\<close>
  are the values of the properties of those names.
\<close>

record message =
  sender :: address
  to :: address
  storage_address :: address
  "value" :: int
  gas :: int
  data :: bytes
  code :: bytes
  depth :: int
  is_create :: bool
  is_static :: bool
  should_transfer_value :: bool

text \<open>
  A stack item is an unsigned integer or a byte string (the stack of the spec's data model
  holds \<open>u256\<close> values, which the handlers push and pop as integers or as bytes). The code
  stream is the raw code with the program counter.
\<close>

datatype stack_item = IntItem nat | BytesItem bytes

record code_stream =
  raw_code_bytes :: bytes
  program_counter :: nat

text \<open>
  The computation (the per-call frame of the spec's data model; \<open>BaseComputation\<close> of
  \<^verbatim>\<open>eth/vm/computation.py\<close> is not among the sources). The top of the stack is the head
  of the list. \<open>gas_refunded\<close> is the refund counter that \<open>refund_gas\<close> adds to and
  \<open>get_gas_refund\<close> reads; \<open>accounts_for_deletion\<close> holds the
  \<open>(account, beneficiary)\<close> pairs that \<open>get_accounts_for_deletion\<close> returns.
\<close>

record computation =
  msg :: message
  transaction_context :: transaction_context
  stack :: "stack_item list"
  memory :: bytes
  code :: code_stream
  gas_remaining :: int
  gas_refunded :: int
  accounts_for_deletion :: "(address \<times> address) list"
  error :: "exn option"
  "output" :: bytes

definition is_error :: "computation \<Rightarrow> bool" where
  "is_error c = (error c \<noteq> None)"

text \<open>
  Modelled from the spec: the gas meter of the computation (\<^verbatim>\<open>eth/vm/gas_meter.py\<close>,
  not among the sources). The spec's words: \<open>gas_remaining \<ge> 0\<close> always; any negative
  transition raises \<open>OutOfGas\<close>. A refused charge leaves the meter as it was.
\<close>

definition consume_gas :: "computation \<Rightarrow> nat \<Rightarrow> exn + computation" where
  "consume_gas c amount =
     (if int amount > gas_remaining c then Inl OutOfGas
      else Inr (c\<lparr>gas_remaining := gas_remaining c - int amount\<rparr>))"





text \<open>
  Modelled from the spec: constants of \<^verbatim>\<open>eth/constants.py\<close> and of the forks'
  \<^verbatim>\<open>constants.py\<close>, not among the sources, with the values the spec gives them: the call
  depth limit 1024, the EIP-170 code size limit 24,576 bytes, the refund quotient 2 before
  London and 5 from London. \<open>GAS_CODEDEPOSIT\<close> and \<open>REFUND_SELFDESTRUCT\<close>, whose values the
  spec does not give, are parameters of the functions that use them.
\<close>

definition STACK_DEPTH_LIMIT :: int where
  "STACK_DEPTH_LIMIT = 1024"

definition EIP170_CODE_SIZE_LIMIT :: nat where
  "EIP170_CODE_SIZE_LIMIT = 24576"



text \<open>
  The interpreter \<open>apply_computation\<close> of \<open>BaseComputation\<close> is not among the sources: it
  is a parameter of the functions that call it, of this type. It runs the message's code
  on the state and returns the computation (which carries the error, if any) and the
  state it leaves.
\<close>

type_synonym interpreter = "state \<Rightarrow> message \<Rightarrow> transaction_context \<Rightarrow> computation \<times> state"

section \<open>Frontier message application (\<^verbatim>\<open>eth/vm/forks/frontier/computation.py\<close>)\<close>

text \<open>
  The value transfer of \<open>apply_message\<close> (the block under
  \<open>if message.should_transfer_value and message.value\<close>) followed by
  \<open>state.touch_account(message.storage_address)\<close>.
\<close>

definition transfer_and_touch :: "state \<Rightarrow> message \<Rightarrow> (exn + unit) \<times> state" where
  "transfer_and_touch state message =
     (if should_transfer_value message \<and> message.value message \<noteq> 0 then
        (let sender_balance = get_balance state (message.sender message) in
         if sender_balance < message.value message then (Inl InsufficientFunds, state)
         else
           (let state = delta_balance state (message.sender message) (- 1 * message.value message);
                state = delta_balance state (storage_address message) (message.value message)
            in (Inr (), touch_account state (storage_address message))))
      else (Inr (), touch_account state (storage_address message)))"

definition FrontierComputation_apply_message ::
  "interpreter \<Rightarrow> state \<Rightarrow> message \<Rightarrow> transaction_context \<Rightarrow> (exn + computation) \<times> state" where
  "FrontierComputation_apply_message apply_computation state message tctx =
     (case snapshot state of (snap, state) \<Rightarrow>
        if depth message > STACK_DEPTH_LIMIT then (Inl StackDepthLimit, state)
        else
          (case transfer_and_touch state message of
             (Inl e, state) \<Rightarrow> (Inl e, state)
           | (Inr _, state) \<Rightarrow>
               (case apply_computation state message tctx of (computation, state) \<Rightarrow>
                  (case (if is_error computation then revert state snap else commit state snap) of
                     (Inl e, state) \<Rightarrow> (Inl e, state)
                   | (Inr _, state) \<Rightarrow> (Inr computation, state)))))"

definition FrontierComputation_apply_create_message ::
  "interpreter \<Rightarrow> nat \<Rightarrow> state \<Rightarrow> message \<Rightarrow> transaction_context \<Rightarrow> (exn + computation) \<times> state" where
  "FrontierComputation_apply_create_message apply_computation GAS_CODEDEPOSIT state message tctx =
     (case FrontierComputation_apply_message apply_computation state message tctx of
        (Inl e, state) \<Rightarrow> (Inl e, state)
      | (Inr computation, state) \<Rightarrow>
          if is_error computation then (Inr computation, state)
          else
            (let contract_code = output computation in
             if contract_code \<noteq> [] then
               (let contract_code_gas_fee = length contract_code * GAS_CODEDEPOSIT in
                case consume_gas computation contract_code_gas_fee of
                  Inl e \<Rightarrow>
                    if e = OutOfGas then (Inr (computation\<lparr>output := []\<rparr>), state)
                    else (Inl e, state)
                | Inr computation \<Rightarrow>
                    (Inr computation, set_code state (storage_address message) contract_code))
             else (Inr computation, state)))"

section \<open>Spurious Dragon contract creation (\<^verbatim>\<open>eth/vm/forks/spurious_dragon/computation.py\<close>)\<close>

definition validate_contract_code :: "bytes \<Rightarrow> exn + unit" where
  "validate_contract_code contract_code =
     (if length contract_code > EIP170_CODE_SIZE_LIMIT then Inl OutOfGas else Inr ())"

text \<open>
  \<open>validate_create_message\<close> does nothing in this fork. The \<open>try\<close> block is the charge
  \<open>deposit_code\<close>: the code size check, then the gas charge; \<open>except VMError\<close> catches
  the subclasses of \<open>VMError\<close> only.
\<close>

definition deposit_code :: "nat \<Rightarrow> computation \<Rightarrow> bytes \<Rightarrow> exn + computation" where
  "deposit_code GAS_CODEDEPOSIT computation contract_code =
     (case validate_contract_code contract_code of
        Inl e \<Rightarrow> Inl e
      | Inr _ \<Rightarrow>
          (let contract_code_gas_cost = length contract_code * GAS_CODEDEPOSIT
           in consume_gas computation contract_code_gas_cost))"

text \<open>
  \<open>returning computation r\<close> is a \<open>state.revert(snapshot)\<close> or
  \<open>state.commit(snapshot)\<close> with the result \<open>r\<close>, followed by \<open>return computation\<close>:
  an exception of the revert or commit goes on to the caller.
\<close>

definition returning ::
  "computation \<Rightarrow> (exn + unit) \<times> state \<Rightarrow> (exn + computation) \<times> state" where
  "returning computation r =
     (case r of
        (Inl e, state) \<Rightarrow> (Inl e, state)
      | (Inr _, state) \<Rightarrow> (Inr computation, state))"

definition SpuriousDragonComputation_apply_create_message ::
  "interpreter \<Rightarrow> nat \<Rightarrow> state \<Rightarrow> message \<Rightarrow> transaction_context \<Rightarrow> (exn + computation) \<times> state" where
  "SpuriousDragonComputation_apply_create_message apply_computation GAS_CODEDEPOSIT state message tctx =
     (case snapshot state of (snap, state) \<Rightarrow>
        (let state = increment_nonce state (storage_address message) in
         case FrontierComputation_apply_message apply_computation state message tctx of
           (Inl e, state) \<Rightarrow> (Inl e, state)
         | (Inr computation, state) \<Rightarrow>
             if is_error computation then returning computation (revert state snap)
             else
               (let contract_code = output computation in
                if contract_code \<noteq> [] then
                  (case deposit_code GAS_CODEDEPOSIT computation contract_code of
                     Inl err \<Rightarrow>
                       if is_VMError err
                       then returning (computation\<lparr>error := Some err\<rparr>) (revert state snap)
                       else (Inl err, state)
                   | Inr computation \<Rightarrow>
                       returning computation
                         (commit (set_code state (storage_address message) contract_code) snap))
                else returning computation (commit state snap))))"

section \<open>Transaction finalization (\<^verbatim>\<open>eth/vm/forks/frontier/state.py\<close>, \<^verbatim>\<open>eth/vm/forks/london/state.py\<close>)\<close>

text \<open>
  The forks whose executors are among the sources. The methods of the state and of the
  executor are looked up in the fork's classes: \<open>get_transaction_context\<close> and \<open>get_tip\<close>
  are those of \<open>LondonState\<close> in London; \<open>calculate_gas_refund\<close> is that of
  \<open>LondonTransactionExecutor\<close> in London and that of \<open>FrontierTransactionExecutor\<close>,
  which the executors of Spurious Dragon and Berlin inherit, before.

  Modelled from the spec: \<open>get_transaction_context\<close> and \<open>get_tip\<close> of the forks before
  London (class \<open>BaseState\<close>, not among the sources). The spec's words: the transaction
  context is \<open>{gas_price, origin}\<close>, and \<open>tip = gas_price\<close> pre-London.
\<close>

datatype fork = Frontier | SpuriousDragon | Berlin | London






text \<open>
  \<open>finalize_computation\<close> of \<open>FrontierTransactionExecutor\<close>. \<open>refund_sender\<close> is the
  block under \<open>if gas_refund_amount\<close>, \<open>delete_accounts\<close> the loop over the accounts
  queued for deletion.
\<close>

definition refund_sender :: "state \<Rightarrow> address \<Rightarrow> int \<Rightarrow> state" where
  "refund_sender state a gas_refund_amount =
     (if gas_refund_amount \<noteq> 0 then delta_balance state a gas_refund_amount else state)"



section \<open>Building the computation (\<^verbatim>\<open>eth/vm/forks/frontier/state.py\<close>, \<^verbatim>\<open>eth/vm/forks/berlin/state.py\<close>)\<close>






text \<open>
  \<open>build_computation\<close> of \<open>BerlinTransactionExecutor\<close>: \<open>mark_transaction_warm\<close> is its
  body before the call of \<open>super().build_computation\<close>, with the loop over the access list
  (\<open>mark_access_list_warm\<close>) and the loop over the slots of one entry (\<open>mark_slots_warm\<close>).
\<close>

fun mark_slots_warm :: "state \<Rightarrow> address \<Rightarrow> int list \<Rightarrow> state" where
  "mark_slots_warm state address [] = state"
| "mark_slots_warm state address (slot # slots) =
     mark_slots_warm (mark_storage_warm state address slot) address slots"

fun mark_access_list_warm :: "state \<Rightarrow> (address \<times> int list) list \<Rightarrow> state" where
  "mark_access_list_warm state [] = state"
| "mark_access_list_warm state ((address, slots) # rest) =
     mark_access_list_warm (mark_slots_warm (mark_address_warm state address) address slots) rest"



section \<open>Stack, memory and code stream of a computation\<close>

text \<open>
  \<open>big_endian_to_int\<close> and \<open>int_to_big_endian\<close> of \<open>eth_utils\<close>: the latter gives the
  shortest big-endian byte string of a number, and one zero byte for 0.
\<close>

fun big_endian_to_int :: "bytes \<Rightarrow> nat" where
  "big_endian_to_int [] = 0"
| "big_endian_to_int (b # bs) = unat b * 256 ^ length bs + big_endian_to_int bs"

fun big_endian_digits :: "nat \<Rightarrow> bytes" where
  "big_endian_digits n =
     (if n = 0 then [] else big_endian_digits (n div 256) @ [of_nat (n mod 256)])"

definition int_to_big_endian :: "nat \<Rightarrow> bytes" where
  "int_to_big_endian n = (if n = 0 then [0] else big_endian_digits n)"

text \<open>
  Modelled from the spec: the stack of the computation (\<^verbatim>\<open>eth/vm/stack.py\<close>, not among
  the sources). The spec's words: a stack of \<open>u256\<close> values; invalid stack use raises
  \<open>StackUnderflow\<close>. An item pushed as bytes is popped as an integer by reading it
  big-endian, an item pushed as an integer is popped as bytes by writing it big-endian.
  \<open>stack_pop_ints\<close> returns the popped items top first.
\<close>

fun to_int :: "stack_item \<Rightarrow> nat" where
  "to_int (IntItem i) = i"
| "to_int (BytesItem b) = big_endian_to_int b"

fun to_bytes :: "stack_item \<Rightarrow> bytes" where
  "to_bytes (IntItem i) = int_to_big_endian i"
| "to_bytes (BytesItem b) = b"

definition stack_pop1_int :: "computation \<Rightarrow> (exn + nat) \<times> computation" where
  "stack_pop1_int c =
     (case stack c of
        [] \<Rightarrow> (Inl StackUnderflow, c)
      | x # rest \<Rightarrow> (Inr (to_int x), c\<lparr>stack := rest\<rparr>))"

definition stack_pop1_bytes :: "computation \<Rightarrow> (exn + bytes) \<times> computation" where
  "stack_pop1_bytes c =
     (case stack c of
        [] \<Rightarrow> (Inl StackUnderflow, c)
      | x # rest \<Rightarrow> (Inr (to_bytes x), c\<lparr>stack := rest\<rparr>))"

definition stack_pop_ints :: "computation \<Rightarrow> nat \<Rightarrow> (exn + nat list) \<times> computation" where
  "stack_pop_ints c num_items =
     (if num_items > length (stack c) then (Inl StackUnderflow, c)
      else (Inr (map to_int (take num_items (stack c))), c\<lparr>stack := drop num_items (stack c)\<rparr>))"

text \<open>
  Modelled from the spec: the memory of the computation (\<open>extend_memory\<close> and
  \<open>memory_write\<close> of \<open>BaseComputation\<close> and \<^verbatim>\<open>eth/vm/memory.py\<close>, not among the
  sources). The spec's words: memory is zero-extended on access and grown in 32-byte chunks
  with a gas cost; any charge beyond the remaining gas raises \<open>OutOfGas\<close>. The cost of a
  memory of a given size is the parameter \<open>memory_gas_cost\<close> (the spec says it is
  quadratic and gives no constants); the extension is charged the difference of the costs
  after and before, when that is positive. Positions and sizes are \<open>u256\<close> values: a
  larger one is refused with \<open>ValidationError\<close>, as is a write that does not fit the
  memory or whose value has not the given size.
\<close>

definition ceil32 :: "nat \<Rightarrow> nat" where
  "ceil32 v = (let remainder = v mod 32 in if remainder = 0 then v else v + 32 - remainder)"

definition UINT_256_CEILING :: nat where
  "UINT_256_CEILING = 2 ^ 256"

definition memory_extend :: "bytes \<Rightarrow> nat \<Rightarrow> nat \<Rightarrow> bytes" where
  "memory_extend mem start_position sz =
     (if sz = 0 then mem
      else
        (let new_size = ceil32 (start_position + sz) in
         if new_size \<le> length mem then mem
         else mem @ replicate (new_size - length mem) 0))"

definition extend_memory ::
  "(nat \<Rightarrow> nat) \<Rightarrow> computation \<Rightarrow> nat \<Rightarrow> nat \<Rightarrow> (exn + unit) \<times> computation" where
  "extend_memory memory_gas_cost c start_position sz =
     (if start_position \<ge> UINT_256_CEILING \<or> sz \<ge> UINT_256_CEILING
      then (Inl ValidationError, c)
      else
        (let before_size = ceil32 (length (memory c));
             after_size = ceil32 (start_position + sz);
             before_cost = memory_gas_cost before_size;
             after_cost = memory_gas_cost after_size
         in if sz \<noteq> 0 then
              (case (if before_cost < after_cost then consume_gas c (after_cost - before_cost)
                     else Inr c) of
                 Inl e \<Rightarrow> (Inl e, c)
               | Inr c \<Rightarrow> (Inr (), c\<lparr>memory := memory_extend (memory c) start_position sz\<rparr>))
            else (Inr (), c)))"

definition memory_write ::
  "computation \<Rightarrow> nat \<Rightarrow> nat \<Rightarrow> bytes \<Rightarrow> (exn + unit) \<times> computation" where
  "memory_write c start_position sz v =
     (if sz \<noteq> 0 then
        (if start_position \<ge> UINT_256_CEILING \<or> sz \<ge> UINT_256_CEILING
            \<or> length v \<noteq> sz \<or> start_position + sz > length (memory c)
         then (Inl ValidationError, c)
         else (Inr (), c\<lparr>memory := take start_position (memory c) @ v
                                      @ drop (start_position + sz) (memory c)\<rparr>))
      else (Inr (), c))"

text \<open>
  Modelled from the spec: the code stream (\<^verbatim>\<open>eth/vm/code_stream.py\<close>) and the opcode
  values (\<^verbatim>\<open>eth/vm/opcode_values.py\<close>), not among the sources. The spec's words:
  \<open>JUMPDEST\<close> is the opcode \<open>0x5B\<close>; a position is a valid opcode boundary when it is
  not inside the immediate data of a \<open>PUSH\<close>. \<open>peek\<close> reads the byte at the program
  counter without moving it, and reads \<open>STOP\<close> past the end of the code.
  \<open>opcode_boundaries\<close> walks the code from its start: an opcode \<open>PUSH1\<close> to \<open>PUSH32\<close>
  (\<open>0x60\<close> to \<open>0x7F\<close>) is followed by 1 to 32 bytes of immediate data.
\<close>

definition STOP :: byte where
  "STOP = 0x00"

definition JUMPDEST :: byte where
  "JUMPDEST = 0x5b"

definition PUSH1 :: byte where
  "PUSH1 = 0x60"

definition PUSH32 :: byte where
  "PUSH32 = 0x7f"

definition peek :: "code_stream \<Rightarrow> byte" where
  "peek cs =
     (let pc = program_counter cs in
      if pc < length (raw_code_bytes cs) then raw_code_bytes cs ! pc else STOP)"

definition push_size :: "byte \<Rightarrow> nat" where
  "push_size opcode = (if PUSH1 \<le> opcode \<and> opcode \<le> PUSH32 then unat opcode - unat PUSH1 + 1 else 0)"

fun opcode_boundaries :: "nat \<Rightarrow> bytes \<Rightarrow> bool list" where
  "opcode_boundaries skip [] = []"
| "opcode_boundaries 0 (opcode # rest) = True # opcode_boundaries (push_size opcode) rest"
| "opcode_boundaries (Suc skip) (b # rest) = False # opcode_boundaries skip rest"

definition is_valid_opcode :: "code_stream \<Rightarrow> nat \<Rightarrow> bool" where
  "is_valid_opcode cs position =
     (position < length (raw_code_bytes cs) \<and> opcode_boundaries 0 (raw_code_bytes cs) ! position)"

section \<open>Flow handlers (\<^verbatim>\<open>eth/vm/logic/flow.py\<close>)\<close>

text \<open>
  A handler returns the exception it raises, if any, and the computation as it leaves it.
\<close>

definition jump :: "computation \<Rightarrow> exn option \<times> computation" where
  "jump computation =
     (case stack_pop1_int computation of
        (Inl e, computation) \<Rightarrow> (Some e, computation)
      | (Inr jump_dest, computation) \<Rightarrow>
          (let computation =
                 computation\<lparr>computation.code :=
                   (computation.code computation)\<lparr>program_counter := jump_dest\<rparr>\<rparr>;
               next_opcode = peek (computation.code computation)
           in if next_opcode \<noteq> JUMPDEST then (Some InvalidJumpDestination, computation)
              else if \<not> is_valid_opcode (computation.code computation) jump_dest
              then (Some InvalidInstruction, computation)
              else (None, computation)))"

definition jumpi :: "computation \<Rightarrow> exn option \<times> computation" where
  "jumpi computation =
     (case stack_pop_ints computation 2 of
        (Inl e, computation) \<Rightarrow> (Some e, computation)
      | (Inr [jump_dest, check_value], computation) \<Rightarrow>
          if check_value \<noteq> 0 then
            (let computation =
                   computation\<lparr>computation.code :=
                     (computation.code computation)\<lparr>program_counter := jump_dest\<rparr>\<rparr>;
                 next_opcode = peek (computation.code computation)
             in if next_opcode \<noteq> JUMPDEST then (Some InvalidJumpDestination, computation)
                else if \<not> is_valid_opcode (computation.code computation) jump_dest
                then (Some InvalidInstruction, computation)
                else (None, computation))
          else (None, computation)
      | (Inr _, computation) \<Rightarrow> (Some ValueError, computation))"

section \<open>Memory handlers (\<^verbatim>\<open>eth/vm/logic/memory.py\<close>)\<close>

text \<open>
  \<open>rjust\<close> is \<open>bytes.rjust(width, fillbyte)\<close> and \<open>last_bytes n v\<close> is the slice
  \<open>v[-n:]\<close> for a positive \<open>n\<close>.
\<close>

definition rjust :: "nat \<Rightarrow> byte \<Rightarrow> bytes \<Rightarrow> bytes" where
  "rjust width fillbyte v = replicate (width - length v) fillbyte @ v"

definition last_bytes :: "nat \<Rightarrow> bytes \<Rightarrow> bytes" where
  "last_bytes n v = drop (length v - n) v"

definition mstore :: "(nat \<Rightarrow> nat) \<Rightarrow> computation \<Rightarrow> exn option \<times> computation" where
  "mstore memory_gas_cost computation =
     (case stack_pop1_int computation of
        (Inl e, computation) \<Rightarrow> (Some e, computation)
      | (Inr start_position, computation) \<Rightarrow>
          (case stack_pop1_bytes computation of
             (Inl e, computation) \<Rightarrow> (Some e, computation)
           | (Inr v, computation) \<Rightarrow>
               (let padded_value = rjust 32 0 v;
                    normalized_value = last_bytes 32 padded_value
                in case extend_memory memory_gas_cost computation start_position 32 of
                     (Inl e, computation) \<Rightarrow> (Some e, computation)
                   | (Inr _, computation) \<Rightarrow>
                       (case memory_write computation start_position 32 normalized_value of
                          (Inl e, computation) \<Rightarrow> (Some e, computation)
                        | (Inr _, computation) \<Rightarrow> (None, computation)))))"

definition mstore8 :: "(nat \<Rightarrow> nat) \<Rightarrow> computation \<Rightarrow> exn option \<times> computation" where
  "mstore8 memory_gas_cost computation =
     (case stack_pop1_int computation of
        (Inl e, computation) \<Rightarrow> (Some e, computation)
      | (Inr start_position, computation) \<Rightarrow>
          (case stack_pop1_bytes computation of
             (Inl e, computation) \<Rightarrow> (Some e, computation)
           | (Inr v, computation) \<Rightarrow>
               (let padded_value = rjust 1 0 v;
                    normalized_value = last_bytes 1 padded_value
                in case extend_memory memory_gas_cost computation start_position 1 of
                     (Inl e, computation) \<Rightarrow> (Some e, computation)
                   | (Inr _, computation) \<Rightarrow>
                       (case memory_write computation start_position 1 normalized_value of
                          (Inl e, computation) \<Rightarrow> (Some e, computation)
                        | (Inr _, computation) \<Rightarrow> (None, computation)))))"

section \<open>Receipt validation and the costless state (\<^verbatim>\<open>eth/vm/base.py\<close>)\<close>

text \<open>
  A log and a receipt, with the fields of the spec's data model that \<open>validate_receipt\<close>
  reads; a topic is a \<open>u256\<close>. The bloom filter is its 2048-bit value.
\<close>

record log =
  address :: address
  topics :: "256 word list"
  data :: bytes

record receipt =
  logs :: "log list"
  bloom_filter :: nat

text \<open>
  Modelled from the spec: the serialization \<open>uint32.serialize\<close> of a topic
  (\<^verbatim>\<open>eth/rlp/sedes.py\<close>) and the membership test of the bloom filter (the library
  \<open>eth_bloom\<close>), not among the sources. The spec's words: a topic is serialized to 32
  bytes; the bloom filter is 2048-bit; each address or 32-byte-serialized topic contributes
  3 set bits determined by the lowest 11 bits of three disjoint 16-bit windows of its
  keccak256. A value is in the bloom filter when its three bits are set. The hash function
  is the parameter \<open>keccak\<close>.
\<close>

definition serialize_uint32 :: "256 word \<Rightarrow> bytes" where
  "serialize_uint32 topic =
     (let s = (if topic = 0 then [] else int_to_big_endian (unat topic))
      in replicate (32 - length s) 0 @ s)"

definition chunk_to_bloom_bits :: "bytes \<Rightarrow> nat" where
  "chunk_to_bloom_bits chunk = push_bit (big_endian_to_int chunk mod 2048) 1"

definition get_bloom_bits :: "(bytes \<Rightarrow> bytes) \<Rightarrow> bytes \<Rightarrow> nat list" where
  "get_bloom_bits keccak v =
     (let value_hash = keccak v
      in map chunk_to_bloom_bits
           [take 2 value_hash, take 2 (drop 2 value_hash), take 2 (drop 4 value_hash)])"

definition bloom_contains :: "(bytes \<Rightarrow> bytes) \<Rightarrow> nat \<Rightarrow> bytes \<Rightarrow> bool" where
  "bloom_contains keccak bloom v = list_all (\<lambda>bloom_bits. bloom AND bloom_bits \<noteq> 0) (get_bloom_bits keccak v)"

text \<open>
  \<open>validate_receipt\<close>: the loop over the log addresses, then the loop over the logs with,
  inside, the loop over the topics of a log. \<open>already_checked\<close> holds addresses (bytes) and
  topics (integers), which Python never finds equal to each other: a sum type.
\<close>

fun validate_log_addresses ::
  "(bytes \<Rightarrow> bool) \<Rightarrow> (address + 256 word) set \<Rightarrow> log list \<Rightarrow> exn + (address + 256 word) set" where
  "validate_log_addresses in_bloom already_checked [] = Inr already_checked"
| "validate_log_addresses in_bloom already_checked (log # rest) =
     (if Inl (address log) \<in> already_checked
      then validate_log_addresses in_bloom already_checked rest
      else if \<not> in_bloom (address log) then Inl ValidationError
      else validate_log_addresses in_bloom (insert (Inl (address log)) already_checked) rest)"

fun validate_topics ::
  "(bytes \<Rightarrow> bool) \<Rightarrow> (address + 256 word) set \<Rightarrow> 256 word list \<Rightarrow> exn + (address + 256 word) set" where
  "validate_topics in_bloom already_checked [] = Inr already_checked"
| "validate_topics in_bloom already_checked (topic # rest) =
     (if Inr topic \<in> already_checked
      then validate_topics in_bloom already_checked rest
      else if \<not> in_bloom (serialize_uint32 topic) then Inl ValidationError
      else validate_topics in_bloom (insert (Inr topic) already_checked) rest)"

fun validate_log_topics ::
  "(bytes \<Rightarrow> bool) \<Rightarrow> (address + 256 word) set \<Rightarrow> log list \<Rightarrow> exn + (address + 256 word) set" where
  "validate_log_topics in_bloom already_checked [] = Inr already_checked"
| "validate_log_topics in_bloom already_checked (log # rest) =
     (case validate_topics in_bloom already_checked (topics log) of
        Inl e \<Rightarrow> Inl e
      | Inr already_checked \<Rightarrow> validate_log_topics in_bloom already_checked rest)"

definition validate_receipt :: "(bytes \<Rightarrow> bytes) \<Rightarrow> receipt \<Rightarrow> exn + unit" where
  "validate_receipt keccak receipt =
     (let in_bloom = bloom_contains keccak (bloom_filter receipt) in
      case validate_log_addresses in_bloom {} (logs receipt) of
        Inl e \<Rightarrow> Inl e
      | Inr already_checked \<Rightarrow>
          (case validate_log_topics in_bloom already_checked (logs receipt) of
             Inl e \<Rightarrow> Inl e
           | Inr _ \<Rightarrow> Inr ()))"

text \<open>
  The invariant of the loops of \<open>validate_receipt\<close>: an item in \<open>already_checked\<close> has
  been found in the bloom filter.
\<close>

fun checked_ok :: "(bytes \<Rightarrow> bool) \<Rightarrow> address + 256 word \<Rightarrow> bool" where
  "checked_ok in_bloom (Inl a) = in_bloom a"
| "checked_ok in_bloom (Inr topic) = in_bloom (serialize_uint32 topic)"

text \<open>
  A block header, by the fields that \<open>create_execution_context\<close> and
  \<open>in_costless_state\<close> read; \<open>base_fee_per_gas\<close> is absent before London. The VM, by what
  \<open>in_costless_state\<close> uses of it: its header (\<open>get_header\<close>), the account database that
  the chain database holds under a state root, the chain id of the chain context, the
  hashes of the previous blocks, and the two methods that the fork's classes define
  outside the sources: \<open>create_header_from_parent\<close> and the \<open>get_fee_recipient\<close> of the
  consensus class.
\<close>

record header =
  coinbase :: address
  timestamp :: int
  block_number :: int
  difficulty :: int
  mix_hash :: bytes
  gas_limit :: int
  state_root :: bytes
  hash :: bytes
  base_fee_per_gas :: "int option"

record vm =
  vm_header :: header
  chaindb :: "bytes \<Rightarrow> account_db"
  vm_chain_id :: int
  previous_hashes :: "bytes list"
  create_header_from_parent :: "header \<Rightarrow> address \<Rightarrow> header"
  get_fee_recipient :: "header \<Rightarrow> address"

definition create_execution_context :: "vm \<Rightarrow> header \<Rightarrow> bytes list \<Rightarrow> execution_context" where
  "create_execution_context self header hashes =
     (let fee_recipient = get_fee_recipient self header in
      case header.base_fee_per_gas header of
        None \<Rightarrow>
          \<lparr>execution_context.coinbase = fee_recipient,
           execution_context.timestamp = header.timestamp header,
           execution_context.block_number = header.block_number header,
           execution_context.difficulty = header.difficulty header,
           execution_context.mix_hash = header.mix_hash header,
           execution_context.gas_limit = header.gas_limit header,
           prev_hashes = hashes,
           chain_id = vm_chain_id self,
           execution_context.base_fee_per_gas = None\<rparr>
      | Some base_fee \<Rightarrow>
          \<lparr>execution_context.coinbase = fee_recipient,
           execution_context.timestamp = header.timestamp header,
           execution_context.block_number = header.block_number header,
           execution_context.difficulty = header.difficulty header,
           execution_context.mix_hash = header.mix_hash header,
           execution_context.gas_limit = header.gas_limit header,
           prev_hashes = hashes,
           chain_id = vm_chain_id self,
           execution_context.base_fee_per_gas = Some base_fee\<rparr>)"

text \<open>
  \<open>build_state\<close> makes a fresh state object over the database at the state root of the
  header: no snapshot is open in it.
\<close>

definition build_state :: "vm \<Rightarrow> header \<Rightarrow> bytes list \<Rightarrow> state" where
  "build_state self header hashes =
     (let ctx = create_execution_context self header hashes
      in \<lparr>execution_context = ctx, account_db = chaindb self (state_root header),
          checkpoints = []\<rparr>)"

text \<open>
  \<open>in_costless_state\<close> is a generator under \<open>contextlib.contextmanager\<close>: the body of the
  \<open>with\<close> statement runs at the \<open>yield\<close>. \<open>costless_state\<close> is the state that the
  statements before the snapshot build. The body is a function of the yielded state that
  returns the exception it raises, if any, and the state as it leaves it. When the body
  raises, the exception is raised in the generator at the \<open>yield\<close>, which is not inside a
  \<open>try\<close>: the generator ends there and the statement after the \<open>yield\<close> does not run.
  The result is the exception that leaves the \<open>with\<close> statement, if any, and the yielded
  state object as it is afterwards.
\<close>

definition costless_state :: "vm \<Rightarrow> state" where
  "costless_state self =
     (let header = vm_header self;
          temp_block_header = create_header_from_parent self header (header.coinbase header);
          hashes = hash header # previous_hashes self;
          free_header =
            (case header.base_fee_per_gas temp_block_header of
               Some _ \<Rightarrow> temp_block_header\<lparr>header.base_fee_per_gas := Some 0\<rparr>
             | None \<Rightarrow> temp_block_header)
      in build_state self free_header hashes)"

definition in_costless_state ::
  "vm \<Rightarrow> (state \<Rightarrow> exn option \<times> state) \<Rightarrow> exn option \<times> state" where
  "in_costless_state self body =
     (let state = costless_state self
      in case snapshot state of (snap, state) \<Rightarrow>
           (case body state of
              (Some e, state) \<Rightarrow> (Some e, state)
            | (None, state) \<Rightarrow>
                (case revert state snap of
                   (Inl e, state) \<Rightarrow> (Some e, state)
                 | (Inr _, state) \<Rightarrow> (None, state))))"

section \<open>Concrete inputs\<close>

text \<open>
  The London base-fee scenario of the spec: a transaction with \<open>max_fee = 100\<close> and
  \<open>max_priority = 2\<close> in a block with \<open>base_fee = 30\<close>.
\<close>

definition alice :: address where
  "alice = replicate 19 0 @ [0xA1]"

definition bob :: address where
  "bob = replicate 19 0 @ [0xB0]"

definition miner :: address where
  "miner = replicate 19 0 @ [0xC0]"

definition london_context :: execution_context where
  "london_context =
     \<lparr>execution_context.coinbase = miner, execution_context.timestamp = 1,
      execution_context.block_number = 1, execution_context.difficulty = 0,
      execution_context.mix_hash = [], execution_context.gas_limit = 30000000,
      prev_hashes = [], chain_id = 1, execution_context.base_fee_per_gas = Some 30\<rparr>"

definition london_transaction :: transaction where
  "london_transaction =
     \<lparr>transaction.nonce = 0, transaction.gas_price = 32, transaction.gas = 21000, transaction.to = bob,
      transaction.value = 0, transaction.data = [], transaction.sender = alice,
      max_fee_per_gas = 100, max_priority_fee_per_gas = 2, intrinsic_gas = 21000,
      access_list = []\<rparr>"

text \<open>
  A state in which \<open>alice\<close> holds 100 wei and no snapshot is open, a message by which
  \<open>alice\<close> sends 7 wei to \<open>bob\<close> at the given depth, and the transaction context of
  the scenario.
\<close>

definition alice_state :: state where
  "alice_state =
     \<lparr>execution_context = london_context,
      account_db = \<lparr>accounts = [alice \<mapsto> empty_account\<lparr>balance := 100\<rparr>], touched = {},
                    warm_addresses = {}, warm_slots = {}\<rparr>,
      checkpoints = []\<rparr>"

definition payment :: "int \<Rightarrow> message" where
  "payment d =
     \<lparr>message.sender = alice, message.to = bob, storage_address = bob, message.value = 7,
      message.gas = 50000, message.data = [], message.code = [], depth = d, is_create = False,
      is_static = False, should_transfer_value = True\<rparr>"

definition alice_context :: transaction_context where
  "alice_context = \<lparr>transaction_context.gas_price = 32, origin = alice\<rparr>"

text \<open>
  An interpreter for the concrete runs: it writes to the state (it increments the nonce of
  the message's storage address, under a snapshot of its own that it commits) and ends
  with the given error, output and remaining gas.
\<close>

definition frame :: "exn option \<Rightarrow> bytes \<Rightarrow> int \<Rightarrow> message \<Rightarrow> transaction_context \<Rightarrow> computation" where
  "frame err out gas_left message tctx =
     \<lparr>msg = message, transaction_context = tctx, stack = [], memory = [],
      computation.code = \<lparr>raw_code_bytes = message.code message, program_counter = 0\<rparr>,
      gas_remaining = gas_left, gas_refunded = 0, accounts_for_deletion = [],
      error = err, output = out\<rparr>"

definition run_ending :: "exn option \<Rightarrow> bytes \<Rightarrow> int \<Rightarrow> interpreter" where
  "run_ending err out gas_left state message tctx =
     (case snapshot state of (snap, state) \<Rightarrow>
        (frame err out gas_left message tctx,
         snd (commit (increment_nonce state (storage_address message)) snap)))"

text \<open>
  A creation message: \<open>alice\<close> creates a contract at address \<open>bob\<close>, with 7 wei.
\<close>

definition creation :: message where
  "creation =
     \<lparr>message.sender = alice, message.to = [], storage_address = bob, message.value = 7,
      message.gas = 50000, message.data = [], message.code = [0x60, 0x00], depth = 0,
      is_create = True, is_static = False, should_transfer_value = True\<rparr>"





text \<open>
  Frames for the handlers: \<open>jump_frame\<close> runs the code \<open>PUSH2 0x5B00; JUMPDEST\<close>, whose
  bytes 1 and 2 (\<open>0x5B\<close> and \<open>0x00\<close>) are the immediate data of the \<open>PUSH2\<close> and whose
  byte 3 is a \<open>JUMPDEST\<close> opcode; \<open>store_frame\<close> has an empty memory and 1000 gas.
  \<open>memory_cost\<close> is a cost of 3 per word plus the square of the number of words divided
  by 512.
\<close>

definition jump_code :: bytes where
  "jump_code = [0x61, 0x5b, 0x00, 0x5b]"

definition jump_frame :: "stack_item list \<Rightarrow> computation" where
  "jump_frame st =
     (frame None [] 1000 ((payment 0)\<lparr>message.code := jump_code\<rparr>) alice_context)\<lparr>stack := st\<rparr>"

definition memory_cost :: "nat \<Rightarrow> nat" where
  "memory_cost =
     (\<lambda>size_in_bytes.
        let size_in_words = size_in_bytes div 32
        in 3 * size_in_words + size_in_words * size_in_words div 512)"

definition store_frame :: "stack_item list \<Rightarrow> computation" where
  "store_frame st = (frame None [] 1000 (payment 0) alice_context)\<lparr>stack := st\<rparr>"

text \<open>
  A stand-in for the hash function, under which the three bloom bits of a value are the bit
  numbered by its last byte; a log of \<open>bob\<close> (last byte \<open>0xB0 = 176\<close>) with the topic 5
  twice; a receipt whose bloom filter has the bits 176 and 5, and one whose bloom filter
  lacks the bit 5.
\<close>

definition toy_hash :: "bytes \<Rightarrow> bytes" where
  "toy_hash v = [0, last (0 # v), 0, last (0 # v), 0, last (0 # v)]"

definition bob_log :: log where
  "bob_log = \<lparr>address = bob, topics = [5, 5], log.data = []\<rparr>"

definition sound_receipt :: receipt where
  "sound_receipt = \<lparr>logs = [bob_log, bob_log], bloom_filter = 2 ^ 176 + 2 ^ 5\<rparr>"

definition unsound_receipt :: receipt where
  "unsound_receipt = \<lparr>logs = [bob_log, bob_log], bloom_filter = 2 ^ 176\<rparr>"

text \<open>
  A VM on a London header with base fee 30, over a database that holds the accounts of
  \<open>alice_state\<close>; a body of a \<open>with\<close> statement that increments the nonce of \<open>alice\<close>
  and then raises, and one that increments it and returns.
\<close>

definition london_header :: header where
  "london_header =
     \<lparr>header.coinbase = miner, header.timestamp = 1, header.block_number = 1,
      header.difficulty = 0, header.mix_hash = [], header.gas_limit = 30000000,
      state_root = [0x11], hash = [0x22], header.base_fee_per_gas = Some 30\<rparr>"

definition london_vm :: vm where
  "london_vm =
     \<lparr>vm_header = london_header,
      chaindb = (\<lambda>root. account_db alice_state),
      vm_chain_id = 1,
      previous_hashes = [],
      create_header_from_parent =
        (\<lambda>parent cb. parent\<lparr>header.coinbase := cb,
                              header.block_number := header.block_number parent + 1,
                              header.timestamp := header.timestamp parent + 1\<rparr>),
      get_fee_recipient = header.coinbase\<rparr>"

definition raising_body :: "state \<Rightarrow> exn option \<times> state" where
  "raising_body state = (Some (Raised 0), increment_nonce state alice)"

definition returning_body :: "state \<Rightarrow> exn option \<times> state" where
  "returning_body state = (None, increment_nonce state alice)"

section \<open>Theorems\<close>

subsection \<open>C1: effective gas price and tip in London\<close>

text \<open>
  C1. In London, for every transaction and every base fee of the execution context, the
  gas price of the state (\<open>get_gas_price\<close>) and the \<open>gas_price\<close> of the transaction
  context are both \<open>min(max_fee_per_gas, max_priority_fee_per_gas + base_fee_per_gas)\<close>,
  and the tip per gas (\<open>get_tip\<close>) is
  \<open>min(max_priority_fee_per_gas, max_fee_per_gas - base_fee_per_gas)\<close>.
\<close>

theorem C1_london_gas_price_and_tip:
  assumes "execution_context.base_fee_per_gas ctx = Some base_fee"
  shows "LondonState_get_gas_price ctx t
           = Inr (min (max_fee_per_gas t) (max_priority_fee_per_gas t + base_fee))
       \<and> LondonState_get_transaction_context ctx t
           = Inr \<lparr>transaction_context.gas_price = min (max_fee_per_gas t) (max_priority_fee_per_gas t + base_fee),
                  origin = transaction.sender t\<rparr>
       \<and> LondonState_get_tip ctx t
           = Inr (min (max_priority_fee_per_gas t) (max_fee_per_gas t - base_fee))"
  using assms
  by (simp add: LondonState_get_gas_price_def LondonState_get_transaction_context_def
      LondonState_get_tip_def get_base_fee_per_gas_def Let_def min.commute)

text \<open>The spec's scenario: the effective gas price is 32 and the tip per gas is 2.\<close>

theorem C1_london_gas_price_and_tip_witness:
  "execution_context.base_fee_per_gas london_context = Some 30
   \<and> LondonState_get_gas_price london_context london_transaction = Inr 32
   \<and> LondonState_get_transaction_context london_context london_transaction
       = Inr \<lparr>transaction_context.gas_price = 32, origin = alice\<rparr>
   \<and> LondonState_get_tip london_context london_transaction = Inr 2"
  using C1_london_gas_price_and_tip [of london_context 30 london_transaction]
  by (simp add: london_context_def london_transaction_def)

subsection \<open>Snapshots and the checkpoint stack\<close>

lemma checkpoints_set_account [simp]: "checkpoints (set_account s a acc) = checkpoints s"
  by (simp add: set_account_def)

lemma checkpoints_delta_balance [simp]: "checkpoints (delta_balance s a d) = checkpoints s"
  by (simp add: delta_balance_def)

lemma checkpoints_touch_account [simp]: "checkpoints (touch_account s a) = checkpoints s"
  by (simp add: touch_account_def)

lemma checkpoints_increment_nonce [simp]: "checkpoints (increment_nonce s a) = checkpoints s"
  by (simp add: increment_nonce_def)

lemma checkpoints_set_code [simp]: "checkpoints (set_code s a c) = checkpoints s"
  by (simp add: set_code_def)

lemma checkpoints_transfer_and_touch:
  "transfer_and_touch s m = (r, s') \<Longrightarrow> checkpoints s' = checkpoints s"
  by (auto simp: transfer_and_touch_def Let_def split: if_splits)

lemma snapshot_simps [simp]:
  "fst (snapshot s) = length (checkpoints s)"
  "checkpoints (snd (snapshot s)) = checkpoints s @ [account_db s]"
  "account_db (snd (snapshot s)) = account_db s"
  "execution_context (snd (snapshot s)) = execution_context s"
  by (simp_all add: snapshot_def)

text \<open>Reverting or committing a snapshot that is still open.\<close>

lemma revert_open:
  "checkpoints s' = cps @ db # rest \<Longrightarrow>
   revert s' (length cps) = (Inr (), s'\<lparr>account_db := db, checkpoints := cps\<rparr>)"
  by (simp add: revert_def nth_append)

lemma commit_open:
  "checkpoints s' = cps @ db # rest \<Longrightarrow>
   commit s' (length cps) = (Inr (), s'\<lparr>checkpoints := cps\<rparr>)"
  by (simp add: commit_def)

text \<open>
  What \<open>apply_message\<close> returns when the depth is within the limit, the transfer goes
  through and the interpreter leaves the checkpoint stack as it found it.
\<close>

lemma apply_message_returns:
  assumes d: "depth m \<le> STACK_DEPTH_LIMIT"
    and tr: "transfer_and_touch (snd (snapshot s)) m = (Inr (), s2)"
    and run: "ac s2 m t = (c, s3)"
    and bal: "checkpoints s3 = checkpoints s2"
  shows "FrontierComputation_apply_message ac s m t =
           (Inr c, if is_error c then s3\<lparr>account_db := account_db s, checkpoints := checkpoints s\<rparr>
                   else s3\<lparr>checkpoints := checkpoints s\<rparr>)"
proof -
  have cp2: "checkpoints s2 = checkpoints s @ [account_db s]"
    using checkpoints_transfer_and_touch [OF tr] by simp
  have cp3: "checkpoints s3 = checkpoints s @ account_db s # []"
    using bal cp2 by simp
  show ?thesis
    using d tr run revert_open [OF cp3] commit_open [OF cp3]
    by (simp add: FrontierComputation_apply_message_def snapshot_def split: prod.splits)
qed

lemma apply_message_checkpoints:
  assumes pc: "\<forall>s m t. checkpoints (snd (ac s m t)) = checkpoints s"
    and res: "FrontierComputation_apply_message ac s m t = (Inr c, s1)"
  shows "checkpoints s1 = checkpoints s"
proof -
  obtain r s2 where tr: "transfer_and_touch (snd (snapshot s)) m = (r, s2)"
    by (cases "transfer_and_touch (snd (snapshot s)) m") auto
  obtain c' s3 where run: "ac s2 m t = (c', s3)"
    by (cases "ac s2 m t") auto
  have d: "depth m \<le> STACK_DEPTH_LIMIT"
    using res by (auto simp: FrontierComputation_apply_message_def split: prod.splits if_splits)
  have r: "r = Inr ()"
    using res tr d
    by (cases r) (auto simp: FrontierComputation_apply_message_def snapshot_def split: prod.splits)
  have bal: "checkpoints s3 = checkpoints s2"
    using pc run by (metis snd_conv)
  show ?thesis
    using apply_message_returns [where ac = ac, OF d tr [unfolded r] run bal] res
    by (auto split: if_splits)
qed

text \<open>The definitions that the concrete runs unfold.\<close>

lemmas run_defs = alice_state_def payment_def creation_def alice_context_def run_ending_def
  frame_def snapshot_def commit_def revert_def increment_nonce_def set_account_def
  get_account_def get_nonce_def transfer_and_touch_def delta_balance_def get_balance_def
  touch_account_def empty_account_def STACK_DEPTH_LIMIT_def is_error_def london_context_def
  alice_def bob_def miner_def FrontierComputation_apply_message_def Let_def

subsection \<open>C3: apply_message reverts on error and commits on success\<close>

text \<open>
  C3. \<open>apply_message\<close> takes a snapshot on entry: while the transfer and the computation
  run, the checkpoint stack is the stack at entry with the account database at entry on
  top. For a message within the depth limit whose value transfer goes through, and an
  interpreter run that leaves the checkpoint stack as it found it (its own snapshots
  committed or reverted), \<open>apply_message\<close> returns the computation of the interpreter.
  If that computation carries an error, the account database is put back to what it was at
  entry, so the value transfer, the touch and every change of the computation are undone;
  if it carries no error, the account database stays as the computation left it. In both
  cases the snapshot is closed: the checkpoint stack is again the stack at entry, so that
  the effects of a successful call belong to the enclosing scope.
\<close>

theorem C3_apply_message_snapshot:
  assumes "depth m \<le> STACK_DEPTH_LIMIT"
    and "transfer_and_touch (snd (snapshot s)) m = (Inr (), s2)"
    and "ac s2 m t = (c, s3)"
    and "checkpoints s3 = checkpoints s2"
  shows "checkpoints s2 = checkpoints s @ [account_db s]
       \<and> FrontierComputation_apply_message ac s m t =
           (Inr c, if is_error c then s3\<lparr>account_db := account_db s, checkpoints := checkpoints s\<rparr>
                   else s3\<lparr>checkpoints := checkpoints s\<rparr>)"
  using apply_message_returns [where ac = ac, OF assms] checkpoints_transfer_and_touch [OF assms(2)]
  by simp

text \<open>
  A payment of 7 wei whose computation writes to the state and runs out of gas leaves the
  state exactly as it was; the same payment with a successful computation leaves \<open>bob\<close>
  with 7 wei and no open snapshot.
\<close>

theorem C3_apply_message_snapshot_witness:
  "depth (payment 0) \<le> STACK_DEPTH_LIMIT
   \<and> FrontierComputation_apply_message (run_ending (Some OutOfGas) [] 0) alice_state (payment 0)
         alice_context
       = (Inr (frame (Some OutOfGas) [] 0 (payment 0) alice_context), alice_state)
   \<and> fst (FrontierComputation_apply_message (run_ending None [] 0) alice_state (payment 0)
         alice_context)
       = Inr (frame None [] 0 (payment 0) alice_context)
   \<and> get_balance (snd (FrontierComputation_apply_message (run_ending None [] 0) alice_state
         (payment 0) alice_context)) bob = 7
   \<and> checkpoints (snd (FrontierComputation_apply_message (run_ending None [] 0) alice_state
         (payment 0) alice_context)) = []"
proof -
  let ?s2 = "snd (transfer_and_touch (snd (snapshot alice_state)) (payment 0))"
  let ?bad = "run_ending (Some OutOfGas) [] 0"
  let ?good = "run_ending None [] 0"
  have h1: "depth (payment 0) \<le> STACK_DEPTH_LIMIT"
    by (simp add: payment_def STACK_DEPTH_LIMIT_def)
  have h2: "transfer_and_touch (snd (snapshot alice_state)) (payment 0) = (Inr (), ?s2)"
    by (simp add: run_defs)
  have h3: "?bad ?s2 (payment 0) alice_context
              = (fst (?bad ?s2 (payment 0) alice_context), snd (?bad ?s2 (payment 0) alice_context))"
    by simp
  have h4: "checkpoints (snd (?bad ?s2 (payment 0) alice_context)) = checkpoints ?s2"
    by (simp add: run_defs)
  have h5: "?good ?s2 (payment 0) alice_context
              = (fst (?good ?s2 (payment 0) alice_context), snd (?good ?s2 (payment 0) alice_context))"
    by simp
  have h6: "checkpoints (snd (?good ?s2 (payment 0) alice_context)) = checkpoints ?s2"
    by (simp add: run_defs)
  from C3_apply_message_snapshot [where ac = ?bad, OF h1 h2 h3 h4]
    C3_apply_message_snapshot [where ac = ?good, OF h1 h2 h5 h6] h1
  show ?thesis
    by (simp add: run_defs)
qed

subsection \<open>C6: the call depth limit\<close>

text \<open>
  C6. For every message whose depth exceeds 1024, \<open>apply_message\<close> raises
  \<open>StackDepthLimit\<close> right after taking its snapshot, whatever the interpreter is: the
  interpreter is not run for that message. Consequently, whenever \<open>apply_message\<close>
  returns a computation, the depth of its message is at most 1024.
\<close>

theorem C6_stack_depth_limit:
  "(1024 < depth m \<longrightarrow>
      FrontierComputation_apply_message ac s m t = (Inl StackDepthLimit, snd (snapshot s)))
   \<and> (\<forall>c s'. FrontierComputation_apply_message ac s m t = (Inr c, s') \<longrightarrow> depth m \<le> 1024)"
  by (auto simp: FrontierComputation_apply_message_def STACK_DEPTH_LIMIT_def
      split: prod.splits if_splits)

text \<open>At depth 1025 the message is refused; at depth 1024 it runs.\<close>

theorem C6_stack_depth_limit_witness:
  "1024 < depth (payment 1025)
   \<and> FrontierComputation_apply_message (run_ending None [] 0) alice_state (payment 1025)
         alice_context
       = (Inl StackDepthLimit, snd (snapshot alice_state))
   \<and> fst (FrontierComputation_apply_message (run_ending None [] 0) alice_state (payment 1024)
         alice_context)
       = Inr (frame None [] 0 (payment 1024) alice_context)
   \<and> depth (payment 1024) \<le> 1024"
  using C6_stack_depth_limit [of "payment 1025" "run_ending None [] 0" alice_state alice_context]
    C6_stack_depth_limit [of "payment 1024" "run_ending None [] 0" alice_state alice_context]
  by (simp add: run_defs)

subsection \<open>C5: the code deposit at the end of a contract creation\<close>

lemma consume_gas_cases:
  "consume_gas c n = (if int n > gas_remaining c then Inl OutOfGas
                      else Inr (c\<lparr>gas_remaining := gas_remaining c - int n\<rparr>))"
  by (simp add: consume_gas_def)

lemma frontier_create:
  assumes "FrontierComputation_apply_message ac s m t = (Inr c, s1)"
    and "\<not> is_error c" and "output c \<noteq> []"
  shows "FrontierComputation_apply_create_message ac G s m t =
           (if gas_remaining c < int (length (output c) * G)
            then (Inr (c\<lparr>output := []\<rparr>), s1)
            else (Inr (c\<lparr>gas_remaining := gas_remaining c - int (length (output c) * G)\<rparr>),
                  set_code s1 (storage_address m) (output c)))"
  using assms
  by (simp add: FrontierComputation_apply_create_message_def consume_gas_cases Let_def)

lemma deposit_code_cases:
  "deposit_code G c cc =
     (if EIP170_CODE_SIZE_LIMIT < length cc \<or> gas_remaining c < int (length cc * G)
      then Inl OutOfGas
      else Inr (c\<lparr>gas_remaining := gas_remaining c - int (length cc * G)\<rparr>))"
  by (simp add: deposit_code_def validate_contract_code_def consume_gas_cases Let_def)

lemma spurious_dragon_create:
  assumes pc: "\<forall>s m t. checkpoints (snd (ac s m t)) = checkpoints s"
    and res: "FrontierComputation_apply_message ac
               (increment_nonce (snd (snapshot s)) (storage_address m)) m t = (Inr c, s1)"
    and ok: "\<not> is_error c" and out: "output c \<noteq> []"
  shows "SpuriousDragonComputation_apply_create_message ac G s m t =
           (if EIP170_CODE_SIZE_LIMIT < length (output c)
               \<or> gas_remaining c < int (length (output c) * G)
            then (Inr (c\<lparr>error := Some OutOfGas\<rparr>),
                  s1\<lparr>account_db := account_db s, checkpoints := checkpoints s\<rparr>)
            else (Inr (c\<lparr>gas_remaining := gas_remaining c - int (length (output c) * G)\<rparr>),
                  (set_code s1 (storage_address m) (output c))\<lparr>checkpoints := checkpoints s\<rparr>))"
proof -
  have cp: "checkpoints s1 = checkpoints s @ account_db s # []"
    using apply_message_checkpoints [OF pc res] by simp
  have cp': "checkpoints (set_code s1 (storage_address m) (output c))
               = checkpoints s @ account_db s # []"
    using cp by simp
  show ?thesis
    using res ok out revert_open [OF cp] commit_open [OF cp']
    by (simp add: SpuriousDragonComputation_apply_create_message_def snapshot_def
        deposit_code_cases returning_def Let_def)
qed

text \<open>
  C5. Let the message of a contract creation have run without error and with a non-empty
  output \<open>c\<close>, and let the charge be \<open>GAS_CODEDEPOSIT\<close> (here \<open>G\<close>) times the length of
  the output. In Frontier: if the remaining gas covers the charge, the charge is consumed
  and the output is stored as the code of the new contract; if the charge exceeds the
  remaining gas, the create returns the computation without error, its output set to empty,
  the gas uncharged and no code stored. In Spurious Dragon, with an interpreter that leaves
  the checkpoint stack as it found it: if the output is at most 24,576 bytes long and the
  remaining gas covers the charge, the charge is consumed, the code is stored and the
  snapshot of the create is committed; if the output is longer than 24,576 bytes or the
  charge exceeds the remaining gas, the computation gets the error \<open>OutOfGas\<close> and the
  account database is put back to what it was when the create started.
\<close>

theorem C5_code_deposit:
  assumes "\<forall>s m t. checkpoints (snd (ac s m t)) = checkpoints s"
    and "FrontierComputation_apply_message ac s m t = (Inr c, s1)"
    and "\<not> is_error c" and "output c \<noteq> []"
    and "FrontierComputation_apply_message ac
           (increment_nonce (snd (snapshot s)) (storage_address m)) m t = (Inr c', s1')"
    and "\<not> is_error c'" and "output c' \<noteq> []"
  shows "(int (length (output c) * G) \<le> gas_remaining c \<longrightarrow>
            FrontierComputation_apply_create_message ac G s m t =
              (Inr (c\<lparr>gas_remaining := gas_remaining c - int (length (output c) * G)\<rparr>),
               set_code s1 (storage_address m) (output c)))
       \<and> (gas_remaining c < int (length (output c) * G) \<longrightarrow>
            FrontierComputation_apply_create_message ac G s m t = (Inr (c\<lparr>output := []\<rparr>), s1))
       \<and> (length (output c') \<le> 24576 \<and> int (length (output c') * G) \<le> gas_remaining c' \<longrightarrow>
            SpuriousDragonComputation_apply_create_message ac G s m t =
              (Inr (c'\<lparr>gas_remaining := gas_remaining c' - int (length (output c') * G)\<rparr>),
               (set_code s1' (storage_address m) (output c'))\<lparr>checkpoints := checkpoints s\<rparr>))
       \<and> (24576 < length (output c') \<or> gas_remaining c' < int (length (output c') * G) \<longrightarrow>
            SpuriousDragonComputation_apply_create_message ac G s m t =
              (Inr (c'\<lparr>error := Some OutOfGas\<rparr>),
               s1'\<lparr>account_db := account_db s, checkpoints := checkpoints s\<rparr>))"
  using frontier_create [where ac = ac, OF assms(2,3,4), of G]
    spurious_dragon_create [where ac = ac, OF assms(1,5,6,7), of G]
  by (auto simp: EIP170_CODE_SIZE_LIMIT_def)

text \<open>
  A creation whose init code returns one byte with 100 gas left. With a deposit price of
  200 per byte, Frontier returns without error and with an empty output, and Spurious
  Dragon returns \<open>OutOfGas\<close> and the state it started from; with a price of 50 per byte
  both consume 50 gas and store the byte as the code of \<open>bob\<close>. A creation whose init
  code returns 24,577 bytes, with a price of 0: Spurious Dragon returns \<open>OutOfGas\<close> and
  the state it started from, Frontier stores the code.
\<close>

theorem C5_code_deposit_witness:
  "FrontierComputation_apply_create_message (run_ending None [0] 100) 200 alice_state creation
       alice_context
     = (Inr (frame None [] 100 creation alice_context),
        snd (FrontierComputation_apply_message (run_ending None [0] 100) alice_state creation
               alice_context))
   \<and> SpuriousDragonComputation_apply_create_message (run_ending None [0] 100) 200 alice_state
       creation alice_context
     = (Inr (frame (Some OutOfGas) [0] 100 creation alice_context), alice_state)
   \<and> fst (FrontierComputation_apply_create_message (run_ending None [0] 100) 50 alice_state
       creation alice_context)
     = Inr (frame None [0] 50 creation alice_context)
   \<and> get_code (snd (FrontierComputation_apply_create_message (run_ending None [0] 100) 50
       alice_state creation alice_context)) bob
     = [0]
   \<and> fst (SpuriousDragonComputation_apply_create_message (run_ending None [0] 100) 50
       alice_state creation alice_context)
     = Inr (frame None [0] 50 creation alice_context)
   \<and> get_code (snd (SpuriousDragonComputation_apply_create_message (run_ending None [0] 100) 50
       alice_state creation alice_context)) bob
     = [0]
   \<and> SpuriousDragonComputation_apply_create_message (run_ending None (replicate 24577 0) 100) 0
       alice_state creation alice_context
     = (Inr (frame (Some OutOfGas) (replicate 24577 0) 100 creation alice_context), alice_state)
   \<and> get_code (snd (FrontierComputation_apply_create_message
       (run_ending None (replicate 24577 0) 100) 0 alice_state creation alice_context)) bob
     = replicate 24577 0"
proof -
  let ?ac = "run_ending None [0] 100"
  let ?c = "frame None [0] 100 creation alice_context"
  let ?long = "run_ending None (replicate 24577 0) 100"
  let ?d = "frame None (replicate 24577 0) 100 creation alice_context"
  let ?entry = "increment_nonce (snd (snapshot alice_state)) (storage_address creation)"
  have pc: "\<forall>s m t. checkpoints (snd (?ac s m t)) = checkpoints s"
    and pc': "\<forall>s m t. checkpoints (snd (?long s m t)) = checkpoints s"
    by (simp_all add: run_ending_def snapshot_def commit_def increment_nonce_def set_account_def)
  have f: "FrontierComputation_apply_message ?ac alice_state creation alice_context
             = (Inr ?c, snd (FrontierComputation_apply_message ?ac alice_state creation alice_context))"
    and g: "FrontierComputation_apply_message ?ac ?entry creation alice_context
             = (Inr ?c, snd (FrontierComputation_apply_message ?ac ?entry creation alice_context))"
    and f': "FrontierComputation_apply_message ?long alice_state creation alice_context
             = (Inr ?d, snd (FrontierComputation_apply_message ?long alice_state creation alice_context))"
    and g': "FrontierComputation_apply_message ?long ?entry creation alice_context
             = (Inr ?d, snd (FrontierComputation_apply_message ?long ?entry creation alice_context))"
    by (simp_all add: run_defs)
  have ok: "\<not> is_error ?c" and out: "output ?c \<noteq> []"
    and ok': "\<not> is_error ?d" and out': "output ?d \<noteq> []"
    by (simp_all add: is_error_def frame_def)
  from C5_code_deposit [where ac = ?ac and G = 200, OF pc f ok out g ok out]
    C5_code_deposit [where ac = ?ac and G = 50, OF pc f ok out g ok out]
    C5_code_deposit [where ac = ?long and G = 0, OF pc' f' ok' out' g' ok' out']
  show ?thesis
    by (simp add: run_defs get_code_def set_code_def)
qed

subsection \<open>C2: the gas refund at finalization\<close>



lemma get_balance_delta_balance [simp]:
  "get_balance (delta_balance s a d) a = get_balance s a + d"
  by (simp add: delta_balance_def get_balance_def set_account_def get_account_def)

lemma execution_context_delta_balance [simp]:
  "execution_context (delta_balance s a d) = execution_context s"
  by (simp add: delta_balance_def set_account_def)

lemma refund_sender_simps [simp]:
  "get_balance (refund_sender s a x) a = get_balance s a + x"
  "execution_context (refund_sender s a x) = execution_context s"
  by (simp_all add: refund_sender_def)





subsection \<open>C4: what the Berlin executor marks warm\<close>

lemma mark_address_warm_simps [simp]:
  "warm_addresses (account_db (mark_address_warm s a)) = insert a (warm_addresses (account_db s))"
  "warm_slots (account_db (mark_address_warm s a)) = warm_slots (account_db s)"
  "accounts (account_db (mark_address_warm s a)) = accounts (account_db s)"
  "touched (account_db (mark_address_warm s a)) = touched (account_db s)"
  "checkpoints (mark_address_warm s a) = checkpoints s"
  "execution_context (mark_address_warm s a) = execution_context s"
  by (simp_all add: mark_address_warm_def)

lemma mark_storage_warm_simps [simp]:
  "warm_addresses (account_db (mark_storage_warm s a k)) = warm_addresses (account_db s)"
  "warm_slots (account_db (mark_storage_warm s a k)) = insert (a, k) (warm_slots (account_db s))"
  "accounts (account_db (mark_storage_warm s a k)) = accounts (account_db s)"
  "touched (account_db (mark_storage_warm s a k)) = touched (account_db s)"
  "checkpoints (mark_storage_warm s a k) = checkpoints s"
  "execution_context (mark_storage_warm s a k) = execution_context s"
  by (simp_all add: mark_storage_warm_def)

lemma mark_slots_warm_simps [simp]:
  "warm_addresses (account_db (mark_slots_warm s a ks)) = warm_addresses (account_db s)"
  "warm_slots (account_db (mark_slots_warm s a ks)) = warm_slots (account_db s) \<union> {a} \<times> set ks"
  "accounts (account_db (mark_slots_warm s a ks)) = accounts (account_db s)"
  "touched (account_db (mark_slots_warm s a ks)) = touched (account_db s)"
  "checkpoints (mark_slots_warm s a ks) = checkpoints s"
  "execution_context (mark_slots_warm s a ks) = execution_context s"
  by (induction ks arbitrary: s) auto

lemma mark_access_list_warm_simps [simp]:
  "warm_addresses (account_db (mark_access_list_warm s al))
     = warm_addresses (account_db s) \<union> fst ` set al"
  "warm_slots (account_db (mark_access_list_warm s al))
     = warm_slots (account_db s) \<union> (\<Union>(a, ks) \<in> set al. {a} \<times> set ks)"
  "accounts (account_db (mark_access_list_warm s al)) = accounts (account_db s)"
  "touched (account_db (mark_access_list_warm s al)) = touched (account_db s)"
  "checkpoints (mark_access_list_warm s al) = checkpoints s"
  "execution_context (mark_access_list_warm s al) = execution_context s"
  by (induction s al rule: mark_access_list_warm.induct) auto




subsection \<open>C7: JUMP and JUMPI\<close>

lemma jump_result:
  assumes "stack c = d # rest"
  shows "jump c =
           (if peek ((computation.code c)\<lparr>program_counter := to_int d\<rparr>) \<noteq> JUMPDEST
            then Some InvalidJumpDestination
            else if \<not> is_valid_opcode (computation.code c) (to_int d) then Some InvalidInstruction
            else None,
            c\<lparr>stack := rest,
              computation.code := (computation.code c)\<lparr>program_counter := to_int d\<rparr>\<rparr>)"
  using assms by (simp add: jump_def stack_pop1_int_def Let_def is_valid_opcode_def)

lemma jumpi_result:
  assumes "stack c = d # v # rest"
  shows "jumpi c =
           (if to_int v \<noteq> 0 then jump (c\<lparr>stack := d # rest\<rparr>) else (None, c\<lparr>stack := rest\<rparr>))"
  using assms by (simp add: jumpi_def jump_def stack_pop_ints_def stack_pop1_int_def Let_def)

text \<open>
  C7. With a destination \<open>d\<close> on top of the stack, \<open>JUMP\<close> pops it and sets the program
  counter to it, whatever follows. It then raises \<open>InvalidJumpDestination\<close> if the byte at
  the destination (\<open>STOP\<close> past the end of the code) is not \<open>JUMPDEST\<close>; if it is, it
  raises \<open>InvalidInstruction\<close> if the destination is not an opcode boundary (it lies in
  the immediate data of a \<open>PUSH\<close>); otherwise it returns. The two checks are made in this
  order, so a destination that fails both raises \<open>InvalidJumpDestination\<close>. \<open>JUMPI\<close> pops
  the destination and the condition \<open>v\<close>: when the condition is not zero it does what
  \<open>JUMP\<close> does with that destination; when it is zero it only pops the two items, leaves
  the program counter alone and raises nothing.
\<close>

theorem C7_jump_and_jumpi:
  assumes "stack c = d # v # rest"
  shows "jump c =
           (if peek ((computation.code c)\<lparr>program_counter := to_int d\<rparr>) \<noteq> JUMPDEST
            then Some InvalidJumpDestination
            else if \<not> is_valid_opcode (computation.code c) (to_int d) then Some InvalidInstruction
            else None,
            c\<lparr>stack := v # rest,
              computation.code := (computation.code c)\<lparr>program_counter := to_int d\<rparr>\<rparr>)
       \<and> jumpi c =
           (if to_int v \<noteq> 0 then jump (c\<lparr>stack := d # rest\<rparr>) else (None, c\<lparr>stack := rest\<rparr>))"
  using jump_result [OF assms] jumpi_result [OF assms] by simp

lemmas jump_defs = jump_frame_def jump_code_def frame_def payment_def alice_context_def
  jump_def jumpi_def stack_pop1_int_def stack_pop_ints_def peek_def is_valid_opcode_def
  push_size_def JUMPDEST_def STOP_def PUSH1_def PUSH32_def Let_def

text \<open>
  In the code \<open>PUSH2 0x5B00; JUMPDEST\<close>: a jump to 0 (the \<open>PUSH2\<close>) or to 7 (past the
  end) raises \<open>InvalidJumpDestination\<close>; a jump to 1 (a \<open>0x5B\<close> byte inside the immediate
  data) raises \<open>InvalidInstruction\<close>; a jump to 2 (a \<open>0x00\<close> byte inside the immediate
  data, which fails both checks) raises \<open>InvalidJumpDestination\<close>; a jump to 3 succeeds
  and leaves the program counter at 3. A conditional jump to 1 raises
  \<open>InvalidInstruction\<close> with the condition 1 and only pops its two items with the
  condition 0.
\<close>

theorem C7_jump_and_jumpi_witness:
  "fst (jump (jump_frame [IntItem 0, IntItem 1])) = Some InvalidJumpDestination
   \<and> fst (jump (jump_frame [IntItem 7, IntItem 1])) = Some InvalidJumpDestination
   \<and> fst (jump (jump_frame [IntItem 1, IntItem 1])) = Some InvalidInstruction
   \<and> fst (jump (jump_frame [IntItem 2, IntItem 1])) = Some InvalidJumpDestination
   \<and> fst (jump (jump_frame [IntItem 3, IntItem 1])) = None
   \<and> program_counter (computation.code (snd (jump (jump_frame [IntItem 3, IntItem 1])))) = 3
   \<and> fst (jumpi (jump_frame [IntItem 1, IntItem 1])) = Some InvalidInstruction
   \<and> jumpi (jump_frame [IntItem 1, IntItem 0]) = (None, jump_frame [])"
  using C7_jump_and_jumpi [of "jump_frame [IntItem 0, IntItem 1]" "IntItem 0" "IntItem 1" "[]"]
    C7_jump_and_jumpi [of "jump_frame [IntItem 7, IntItem 1]" "IntItem 7" "IntItem 1" "[]"]
    C7_jump_and_jumpi [of "jump_frame [IntItem 1, IntItem 1]" "IntItem 1" "IntItem 1" "[]"]
    C7_jump_and_jumpi [of "jump_frame [IntItem 2, IntItem 1]" "IntItem 2" "IntItem 1" "[]"]
    C7_jump_and_jumpi [of "jump_frame [IntItem 3, IntItem 1]" "IntItem 3" "IntItem 1" "[]"]
    C7_jump_and_jumpi [of "jump_frame [IntItem 1, IntItem 0]" "IntItem 1" "IntItem 0" "[]"]
  by (simp add: jump_defs)

subsection \<open>C10: MSTORE and MSTORE8\<close>

lemma big_endian_to_int_append:
  "big_endian_to_int (xs @ ys) = big_endian_to_int xs * 256 ^ length ys + big_endian_to_int ys"
  by (induction xs) (simp_all add: power_add algebra_simps)

lemma big_endian_to_int_bound: "big_endian_to_int xs < 256 ^ length xs"
proof (induction xs)
  case Nil
  then show ?case by simp
next
  case (Cons b bs)
  define P :: nat where "P = 256 ^ length bs"
  have "unat b < 2 ^ LENGTH(8)" by (rule unsigned_less)
  then have "unat b \<le> 255" by simp
  then have "unat b * P \<le> 255 * P" by (rule mult_le_mono1)
  moreover have "big_endian_to_int bs < P" using Cons by (simp add: P_def)
  ultimately have "unat b * P + big_endian_to_int bs < 256 * P" by linarith
  then show ?case by (simp add: P_def)
qed

lemma big_endian_to_int_zeros [simp]: "big_endian_to_int (replicate k 0 @ v) = big_endian_to_int v"
  by (induction k) simp_all

lemma length_normalized: "0 < n \<Longrightarrow> length (last_bytes n (rjust n 0 v)) = n"
  by (auto simp: last_bytes_def rjust_def)

lemma normalized_value:
  "big_endian_to_int (last_bytes n (rjust n 0 v)) = big_endian_to_int v mod 256 ^ n"
proof (cases "length v \<le> n")
  case True
  have "big_endian_to_int v < 256 ^ length v" by (rule big_endian_to_int_bound)
  also have "\<dots> \<le> 256 ^ n" using True by (simp add: power_increasing)
  finally show ?thesis using True by (simp add: last_bytes_def rjust_def)
next
  case False
  then have n: "n < length v" by simp
  let ?hi = "take (length v - n) v" and ?lo = "drop (length v - n) v"
  have len: "length ?lo = n" using n by simp
  have "big_endian_to_int v = big_endian_to_int (?hi @ ?lo)" by simp
  also have "\<dots> = big_endian_to_int ?hi * 256 ^ n + big_endian_to_int ?lo"
    by (simp only: big_endian_to_int_append len)
  finally have "big_endian_to_int v mod 256 ^ n = big_endian_to_int ?lo mod 256 ^ n"
    by simp
  moreover have "big_endian_to_int ?lo < 256 ^ n"
    using big_endian_to_int_bound [of ?lo] len by simp
  ultimately show ?thesis using n by (simp add: last_bytes_def rjust_def)
qed

lemma ceil32_ge: "v \<le> ceil32 v"
  unfolding ceil32_def Let_def by presburger

lemma memory_extend_covers:
  "0 < n \<Longrightarrow> start + n \<le> length (memory_extend mem start n)"
  using ceil32_ge [of "start + n"] by (auto simp: memory_extend_def Let_def)

lemma length_memory_extend:
  "0 < n \<Longrightarrow> length (memory_extend mem start n) = max (length mem) (ceil32 (start + n))"
  by (auto simp: memory_extend_def Let_def)

lemma memory_extend_nth:
  "i < length (memory_extend mem start n) \<Longrightarrow>
     memory_extend mem start n ! i = (if i < length mem then mem ! i else 0)"
  by (auto simp: memory_extend_def Let_def nth_append)

lemma extend_memory_ok:
  assumes "start < 2 ^ 256" and "0 < n" and "n < 2 ^ 256"
    and "int (mgc (ceil32 (start + n)) - mgc (ceil32 (length (memory c)))) \<le> gas_remaining c"
  shows "extend_memory mgc c start n =
           (Inr (), c\<lparr>gas_remaining :=
                        gas_remaining c - int (mgc (ceil32 (start + n)) - mgc (ceil32 (length (memory c)))),
                      memory := memory_extend (memory c) start n\<rparr>)"
  using assms by (auto simp: extend_memory_def UINT_256_CEILING_def consume_gas_def Let_def)

lemma memory_write_ok:
  assumes "start < 2 ^ 256" and "0 < n" and "n < 2 ^ 256" and "length v = n"
    and "start + n \<le> length (memory c)"
  shows "memory_write c start n v =
           (Inr (), c\<lparr>memory := take start (memory c) @ v @ drop (start + n) (memory c)\<rparr>)"
  using assms by (auto simp: memory_write_def UINT_256_CEILING_def)

lemma mstore_result:
  assumes st: "stack c = a # v # rest" and a: "to_int a < 2 ^ 256"
    and gas: "int (mgc (ceil32 (to_int a + 32)) - mgc (ceil32 (length (memory c)))) \<le> gas_remaining c"
  shows "mstore mgc c =
           (None,
            c\<lparr>stack := rest,
              gas_remaining :=
                gas_remaining c - int (mgc (ceil32 (to_int a + 32)) - mgc (ceil32 (length (memory c)))),
              memory := take (to_int a) (memory_extend (memory c) (to_int a) 32)
                        @ last_bytes 32 (rjust 32 0 (to_bytes v))
                        @ drop (to_int a + 32) (memory_extend (memory c) (to_int a) 32)\<rparr>)"
proof -
  let ?c2 = "c\<lparr>stack := rest\<rparr>"
  let ?c3 = "?c2\<lparr>gas_remaining :=
                gas_remaining c - int (mgc (ceil32 (to_int a + 32)) - mgc (ceil32 (length (memory c)))),
              memory := memory_extend (memory c) (to_int a) 32\<rparr>"
  have e: "extend_memory mgc ?c2 (to_int a) 32 = (Inr (), ?c3)"
    using extend_memory_ok [of "to_int a" 32 mgc ?c2] a gas by simp
  have w: "memory_write ?c3 (to_int a) 32 (last_bytes 32 (rjust 32 0 (to_bytes v)))
             = (Inr (), ?c3\<lparr>memory := take (to_int a) (memory ?c3)
                                  @ last_bytes 32 (rjust 32 0 (to_bytes v))
                                  @ drop (to_int a + 32) (memory ?c3)\<rparr>)"
    by (rule memory_write_ok) (use a memory_extend_covers [of 32 "to_int a" "memory c"] in
        \<open>simp_all add: length_normalized\<close>)
  show ?thesis
    using st e w by (simp add: mstore_def stack_pop1_int_def stack_pop1_bytes_def Let_def)
qed

lemma mstore8_result:
  assumes st: "stack c = a # v # rest" and a: "to_int a < 2 ^ 256"
    and gas: "int (mgc (ceil32 (to_int a + 1)) - mgc (ceil32 (length (memory c)))) \<le> gas_remaining c"
  shows "mstore8 mgc c =
           (None,
            c\<lparr>stack := rest,
              gas_remaining :=
                gas_remaining c - int (mgc (ceil32 (to_int a + 1)) - mgc (ceil32 (length (memory c)))),
              memory := take (to_int a) (memory_extend (memory c) (to_int a) 1)
                        @ last_bytes 1 (rjust 1 0 (to_bytes v))
                        @ drop (to_int a + 1) (memory_extend (memory c) (to_int a) 1)\<rparr>)"
proof -
  let ?c2 = "c\<lparr>stack := rest\<rparr>"
  let ?c3 = "?c2\<lparr>gas_remaining :=
                gas_remaining c - int (mgc (ceil32 (to_int a + 1)) - mgc (ceil32 (length (memory c)))),
              memory := memory_extend (memory c) (to_int a) 1\<rparr>"
  have e: "extend_memory mgc ?c2 (to_int a) 1 = (Inr (), ?c3)"
    using extend_memory_ok [of "to_int a" 1 mgc ?c2] a gas by simp
  have w: "memory_write ?c3 (to_int a) 1 (last_bytes 1 (rjust 1 0 (to_bytes v)))
             = (Inr (), ?c3\<lparr>memory := take (to_int a) (memory ?c3)
                                  @ last_bytes 1 (rjust 1 0 (to_bytes v))
                                  @ drop (to_int a + 1) (memory ?c3)\<rparr>)"
    by (rule memory_write_ok) (use a memory_extend_covers [of 1 "to_int a" "memory c"] in
        \<open>simp_all add: length_normalized\<close>)
  show ?thesis
    using st e w by (simp add: mstore8_def stack_pop1_int_def stack_pop1_bytes_def Let_def)
qed


lemma normalized_cases:
  "last_bytes n (rjust n 0 v) =
     (if length v \<le> n then replicate (n - length v) 0 @ v else drop (length v - n) v)"
  by (simp add: last_bytes_def rjust_def)

text \<open>
  C10. Let the stack hold the start position \<open>a\<close> on top and the value \<open>v\<close> below it,
  the start position being a \<open>u256\<close>, and let the remaining gas cover the cost of extending
  the memory. \<open>MSTORE\<close> pops both. The value as bytes, padded on the left with zero bytes to
  32 bytes and cut to its last 32 bytes, is the normalized value: it is exactly 32 bytes
  long, it is the value with zero bytes in front when the value has at most 32 bytes and
  the last 32 bytes of the value otherwise, and read as a big-endian number it is the value
  modulo \<open>2 ^ 256\<close>. The memory is first extended with zero bytes to cover the 32 bytes from
  the start position (to the next multiple of 32, if it was shorter), the extension is
  charged, and then the normalized value replaces the 32 bytes at the start position, the
  rest of the extended memory staying as it is. \<open>MSTORE8\<close> does the same with 1 in place of
  32: the normalized value is the one byte that is the value modulo 256.
\<close>

theorem C10_mstore:
  assumes "stack c = a # v # rest" and "to_int a < 2 ^ 256"
    and "int (mgc (ceil32 (to_int a + 32)) - mgc (ceil32 (length (memory c)))) \<le> gas_remaining c"
    and "int (mgc (ceil32 (to_int a + 1)) - mgc (ceil32 (length (memory c)))) \<le> gas_remaining c"
  shows "(let normalized_value = last_bytes 32 (rjust 32 0 (to_bytes v));
              extended = memory_extend (memory c) (to_int a) 32
          in length normalized_value = 32
           \<and> normalized_value =
               (if length (to_bytes v) \<le> 32 then replicate (32 - length (to_bytes v)) 0 @ to_bytes v
                else drop (length (to_bytes v) - 32) (to_bytes v))
           \<and> big_endian_to_int normalized_value = big_endian_to_int (to_bytes v) mod 2 ^ 256
           \<and> length extended = max (length (memory c)) (ceil32 (to_int a + 32))
           \<and> to_int a + 32 \<le> length extended
           \<and> mstore mgc c =
               (None,
                c\<lparr>stack := rest,
                  gas_remaining := gas_remaining c
                    - int (mgc (ceil32 (to_int a + 32)) - mgc (ceil32 (length (memory c)))),
                  memory := take (to_int a) extended @ normalized_value
                            @ drop (to_int a + 32) extended\<rparr>))
       \<and> (let normalized_value = last_bytes 1 (rjust 1 0 (to_bytes v));
              extended = memory_extend (memory c) (to_int a) 1
          in length normalized_value = 1
           \<and> big_endian_to_int normalized_value = big_endian_to_int (to_bytes v) mod 256
           \<and> length extended = max (length (memory c)) (ceil32 (to_int a + 1))
           \<and> to_int a + 1 \<le> length extended
           \<and> mstore8 mgc c =
               (None,
                c\<lparr>stack := rest,
                  gas_remaining := gas_remaining c
                    - int (mgc (ceil32 (to_int a + 1)) - mgc (ceil32 (length (memory c)))),
                  memory := take (to_int a) extended @ normalized_value
                            @ drop (to_int a + 1) extended\<rparr>))"
proof -
  have p: "(256::nat) ^ 32 = 2 ^ 256" by simp
  show ?thesis
    unfolding Let_def
    using mstore_result [OF assms(1,2,3)] mstore8_result [OF assms(1,2,4)]
      normalized_value [of 32 "to_bytes v"] normalized_value [of 1 "to_bytes v"]
      normalized_cases [of 32 "to_bytes v"]
      memory_extend_covers [of 32 "to_int a" "memory c"] memory_extend_covers [of 1 "to_int a" "memory c"]
      length_memory_extend [of 32 "memory c" "to_int a"] length_memory_extend [of 1 "memory c" "to_int a"]
      length_normalized [of 32 "to_bytes v"] length_normalized [of 1 "to_bytes v"]
    by (simp only: p power_one_right)
qed

lemmas store_defs = store_frame_def frame_def payment_def alice_context_def memory_cost_def
   ceil32_def memory_extend_def last_bytes_def rjust_def Let_def

text \<open>
  Storing the value \<open>0x1234\<close> at position 0 of an empty memory: \<open>MSTORE\<close> leaves 30 zero
  bytes followed by \<open>0x12, 0x34\<close>, \<open>MSTORE8\<close> leaves \<open>0x34\<close> followed by 31 zero
  bytes; both pay 3 gas for the first word of memory.
\<close>

theorem C10_mstore_witness:
  "mstore memory_cost (store_frame [IntItem 0, BytesItem [0x12, 0x34]])
     = (None, (store_frame [])\<lparr>gas_remaining := 997, memory := replicate 30 0 @ [0x12, 0x34]\<rparr>)
   \<and> mstore8 memory_cost (store_frame [IntItem 0, BytesItem [0x12, 0x34]])
     = (None, (store_frame [])\<lparr>gas_remaining := 997, memory := [0x34] @ replicate 31 0\<rparr>)"
proof -
  let ?c = "store_frame [IntItem 0, BytesItem [0x12, 0x34]]"
  have h1: "stack ?c = IntItem 0 # BytesItem [0x12, 0x34] # []"
    by (simp add: store_defs)
  have h2: "to_int (IntItem 0) < 2 ^ 256"
    by simp
  have h3: "int (memory_cost (ceil32 (to_int (IntItem 0) + 32)) - memory_cost (ceil32 (length (memory ?c))))
              \<le> gas_remaining ?c"
    by (simp add: store_defs)
  have h4: "int (memory_cost (ceil32 (to_int (IntItem 0) + 1)) - memory_cost (ceil32 (length (memory ?c))))
              \<le> gas_remaining ?c"
    by (simp add: store_defs)
  from C10_mstore [OF h1 h2 h3 h4] show ?thesis
    by (simp add: store_defs)
qed

subsection \<open>C8: validate_receipt\<close>

lemma validate_log_addresses_result:
  assumes "\<forall>x \<in> ac. checked_ok f x"
  shows "if \<forall>l \<in> set ls. f (address l)
         then \<exists>ac'. validate_log_addresses f ac ls = Inr ac' \<and> (\<forall>x \<in> ac'. checked_ok f x)
         else validate_log_addresses f ac ls = Inl ValidationError"
  using assms
proof (induction ls arbitrary: ac)
  case Nil
  then show ?case by simp
next
  case (Cons l ls)
  show ?case
  proof (cases "Inl (address l) \<in> ac")
    case True
    then have "f (address l)" using Cons.prems by force
    then show ?thesis using True Cons.IH [OF Cons.prems] by simp
  next
    case False
    show ?thesis
    proof (cases "f (address l)")
      case True
      have "\<forall>x \<in> insert (Inl (address l)) ac. checked_ok f x"
        using True Cons.prems by simp
      from Cons.IH [OF this] show ?thesis using False True by simp
    next
      case no: False
      then show ?thesis using False by auto
    qed
  qed
qed

lemma validate_topics_result:
  assumes "\<forall>x \<in> ac. checked_ok f x"
  shows "if \<forall>t \<in> set ts. f (serialize_uint32 t)
         then \<exists>ac'. validate_topics f ac ts = Inr ac' \<and> (\<forall>x \<in> ac'. checked_ok f x)
         else validate_topics f ac ts = Inl ValidationError"
  using assms
proof (induction ts arbitrary: ac)
  case Nil
  then show ?case by simp
next
  case (Cons t ts)
  show ?case
  proof (cases "Inr t \<in> ac")
    case True
    then have "f (serialize_uint32 t)" using Cons.prems by force
    then show ?thesis using True Cons.IH [OF Cons.prems] by simp
  next
    case False
    show ?thesis
    proof (cases "f (serialize_uint32 t)")
      case True
      have "\<forall>x \<in> insert (Inr t) ac. checked_ok f x"
        using True Cons.prems by simp
      from Cons.IH [OF this] show ?thesis using False True by simp
    next
      case no: False
      then show ?thesis using False by auto
    qed
  qed
qed

lemma validate_log_topics_result:
  assumes "\<forall>x \<in> ac. checked_ok f x"
  shows "if \<forall>l \<in> set ls. \<forall>t \<in> set (topics l). f (serialize_uint32 t)
         then \<exists>ac'. validate_log_topics f ac ls = Inr ac' \<and> (\<forall>x \<in> ac'. checked_ok f x)
         else validate_log_topics f ac ls = Inl ValidationError"
  using assms
proof (induction ls arbitrary: ac)
  case Nil
  then show ?case by simp
next
  case (Cons l ls)
  show ?case
  proof (cases "\<forall>t \<in> set (topics l). f (serialize_uint32 t)")
    case True
    then obtain ac' where s: "validate_topics f ac (topics l) = Inr ac'" and ok: "\<forall>x \<in> ac'. checked_ok f x"
      using validate_topics_result [OF Cons.prems, of "topics l"] by auto
    from Cons.IH [OF ok] show ?thesis using True s by simp
  next
    case False
    then have "validate_topics f ac (topics l) = Inl ValidationError"
      using validate_topics_result [OF Cons.prems, of "topics l"] by auto
    then show ?thesis using False by auto
  qed
qed

text \<open>
  C8. \<open>validate_receipt\<close> raises \<open>ValidationError\<close> whenever the address of some log of
  the receipt, or the 32-byte serialization of some topic of some log, is not in the bloom
  filter of the receipt, and returns normally when every log address and every serialized
  topic is in it. It only reads the receipt: it returns nothing but the exception, if any.
\<close>

theorem C8_validate_receipt:
  "validate_receipt keccak r =
     (if (\<forall>l \<in> set (logs r). bloom_contains keccak (bloom_filter r) (address l))
         \<and> (\<forall>l \<in> set (logs r). \<forall>t \<in> set (topics l).
               bloom_contains keccak (bloom_filter r) (serialize_uint32 t))
      then Inr () else Inl ValidationError)"
proof -
  let ?f = "bloom_contains keccak (bloom_filter r)"
  have e: "\<forall>x \<in> {}. checked_ok ?f x" by simp
  show ?thesis
  proof (cases "\<forall>l \<in> set (logs r). ?f (address l)")
    case True
    then obtain ac where a: "validate_log_addresses ?f {} (logs r) = Inr ac"
      and ok: "\<forall>x \<in> ac. checked_ok ?f x"
      using validate_log_addresses_result [OF e, of "logs r"] by auto
    show ?thesis
      using validate_log_topics_result [OF ok, of "logs r"] a True
      by (auto simp: validate_receipt_def Let_def)
  next
    case False
    then have "validate_log_addresses ?f {} (logs r) = Inl ValidationError"
      using validate_log_addresses_result [OF e, of "logs r"] by auto
    then show ?thesis using False by (auto simp: validate_receipt_def Let_def)
  qed
qed

lemmas receipt_defs = sound_receipt_def unsound_receipt_def bob_log_def toy_hash_def bob_def
  bloom_contains_def get_bloom_bits_def chunk_to_bloom_bits_def serialize_uint32_def
  int_to_big_endian_def Let_def

text \<open>
  The receipt whose bloom filter has the bits of the address and of the topic passes; the
  one whose bloom filter lacks the bit of the topic is refused.
\<close>

theorem C8_validate_receipt_witness:
  "validate_receipt toy_hash sound_receipt = Inr ()
   \<and> validate_receipt toy_hash unsound_receipt = Inl ValidationError"
  using C8_validate_receipt [of toy_hash sound_receipt] C8_validate_receipt [of toy_hash unsound_receipt]
  by (simp add: receipt_defs)

subsection \<open>C9: in_costless_state\<close>

lemma in_costless_state_unfold:
  "in_costless_state self body =
     (case body (snd (snapshot (costless_state self))) of
        (Some e, state) \<Rightarrow> (Some e, state)
      | (None, state) \<Rightarrow>
          (case revert state 0 of
             (Inl e, state) \<Rightarrow> (Some e, state)
           | (Inr _, state) \<Rightarrow> (None, state)))"
  by (simp add: in_costless_state_def costless_state_def Let_def snapshot_def build_state_def
      split: prod.splits option.splits)

text \<open>
  The yielded state is built from a header whose base fee is 0 when the header of the
  temporary block has a base fee, and has none otherwise.
\<close>

lemma costless_state_base_fee:
  "execution_context.base_fee_per_gas (execution_context (costless_state self)) =
     (case header.base_fee_per_gas
             (create_header_from_parent self (vm_header self) (header.coinbase (vm_header self))) of
        Some _ \<Rightarrow> Some 0 | None \<Rightarrow> None)"
  by (simp add: costless_state_def build_state_def create_execution_context_def Let_def
      split: option.splits)

text \<open>
  When the body returns normally and leaves the checkpoint stack as it found it, the
  yielded state is put back to the snapshot taken at entry.
\<close>

lemma in_costless_state_normal_exit:
  assumes "body (snd (snapshot (costless_state self))) = (None, s')"
    and "checkpoints s' = checkpoints (snd (snapshot (costless_state self)))"
  shows "in_costless_state self body
           = (None, s'\<lparr>account_db := account_db (costless_state self), checkpoints := []\<rparr>)"
proof -
  have cp: "checkpoints s' = [] @ account_db (costless_state self) # []"
    using assms(2) by (simp add: costless_state_def build_state_def Let_def)
  show ?thesis
    using assms(1) revert_open [OF cp] by (simp add: in_costless_state_unfold)
qed

text \<open>
  When the body raises, the yielded state stays as the body left it: nothing is reverted.
\<close>

lemma in_costless_state_raising_exit:
  assumes "body (snd (snapshot (costless_state self))) = (Some e, s')"
  shows "in_costless_state self body = (Some e, s')"
  using assms by (simp add: in_costless_state_unfold)

lemmas costless_defs = london_vm_def london_header_def raising_body_def returning_body_def
  in_costless_state_def costless_state_def build_state_def create_execution_context_def
  snapshot_def revert_def increment_nonce_def set_account_def get_account_def get_nonce_def
  alice_state_def empty_account_def alice_def bob_def miner_def Let_def

text \<open>
  C9. The claim is that the yielded state has a base fee forced to 0 and is reverted to the
  snapshot taken at entry on every exit of the scope. The first part holds, and so does the
  second when the body of the \<open>with\<close> statement returns normally (the lemmas above). It
  fails when the body raises. On the VM \<open>london_vm\<close>, whose header has a base fee of 30,
  the yielded state has a base fee of 0 and \<open>alice\<close> has nonce 0 in it. With the body that
  increments the nonce of \<open>alice\<close> and returns, the state ends as it was built. With the
  body that increments the nonce of \<open>alice\<close> and then raises, the exception leaves the
  \<open>with\<close> statement and the yielded state keeps the nonce 1 and its open checkpoint: the
  change made inside the scope survives.
\<close>

theorem C9_in_costless_state_raising_body:
  "execution_context.base_fee_per_gas (execution_context (costless_state london_vm)) = Some 0
   \<and> get_nonce (costless_state london_vm) alice = 0
   \<and> in_costless_state london_vm returning_body = (None, costless_state london_vm)
   \<and> fst (in_costless_state london_vm raising_body) = Some (Raised 0)
   \<and> get_nonce (snd (in_costless_state london_vm raising_body)) alice = 1
   \<and> checkpoints (snd (in_costless_state london_vm raising_body))
       = [account_db (costless_state london_vm)]"
  by (simp add: costless_defs)

end
